theory Spec2Isabelle
  imports Main "HOL-Library.Word" "HOL-Library.Multiset"
begin

section \<open>The in-memory operation storage\<close>

subsection \<open>Data model\<close>

text \<open>
  \<open>internal.Operation\<close> is the core shared by the three operation kinds. Its declaration
  is outside the files at hand; the record has the fields the storage driver and the
  converter read: \<open>ID\<close>, \<open>Version\<close> (a Go \<open>int\<close>, 64 bits, so \<open>+\<close> wraps),
  \<open>CreatedAt\<close> (a \<open>time.Time\<close>, kept as its instant, the zero time being 0),
  \<open>InstanceID\<close>, \<open>State\<close> (a \<open>domain.LastOperationState\<close>, which is a string),
  \<open>Description\<close> and \<open>OrchestrationID\<close>.
\<close>

type_synonym LastOperationState = string

record Operation =
  ID :: string
  Version :: "64 word"
  CreatedAt :: int
  InstanceID :: string
  State :: LastOperationState
  Description :: string
  OrchestrationID :: string

text \<open>
  Each kind embeds \<open>Operation\<close> (Go struct embedding, so \<open>op.ID\<close> is the embedded
  field and \<open>op.Operation\<close> is the embedded struct: here record extension and
  \<open>Operation.truncate\<close>). The fields a kind adds are a type parameter.
\<close>

record 'p ProvisioningOperation = Operation +
  ProvisioningFields :: 'p

record 'd DeprovisioningOperation = Operation +
  DeprovisioningFields :: 'd

record 'u UpgradeKymaOperation = Operation +
  UpgradeKymaFields :: 'u

text \<open>The constants of \<open>domain.LastOperationState\<close> the driver uses.\<close>

definition InProgress :: LastOperationState where
  "InProgress = ''in progress''"

definition Succeeded :: LastOperationState where
  "Succeeded = ''succeeded''"

definition Failed :: LastOperationState where
  "Failed = ''failed''"

text \<open>The error kinds of package \<open>dberr\<close>; the formatted message is not kept.\<close>

datatype dberr = NotFound | AlreadyExists | Conflict

text \<open>
  The struct \<open>operations\<close>: three Go maps from operation id to operation. The mutex
  \<open>mu\<close> is held by every mutating method for its whole body, so a method is one atomic
  step from a store to a store, and interleaved calls are calls in some sequence.
\<close>

record ('p, 'd, 'u) operations =
  provisioningOperations :: "string \<rightharpoonup> 'p ProvisioningOperation"
  deprovisioningOperations :: "string \<rightharpoonup> 'd DeprovisioningOperation"
  upgradeKymaOperations :: "string \<rightharpoonup> 'u UpgradeKymaOperation"

definition NewOperation :: "('p, 'd, 'u) operations" where
  "NewOperation =
     \<lparr>provisioningOperations = Map.empty,
      deprovisioningOperations = Map.empty,
      upgradeKymaOperations = Map.empty\<rparr>"

subsection \<open>Insert, get and update, per kind\<close>

text \<open>
  A method that returns \<open>error\<close> gives the store after the call and \<open>Some e\<close> or
  \<open>None\<close> (nil); a method that returns a value and an error gives the store after the
  call and \<open>Inl e\<close> or \<open>Inr v\<close>. A getter leaves the store alone and returns the sum only.
\<close>

definition InsertProvisioningOperation ::
  "('p, 'd, 'u) operations \<Rightarrow> 'p ProvisioningOperation
     \<Rightarrow> ('p, 'd, 'u) operations \<times> dberr option" where
  "InsertProvisioningOperation s operation =
     (let id' = ID operation in
      case provisioningOperations s id' of
        Some _ \<Rightarrow> (s, Some AlreadyExists)
      | None \<Rightarrow>
          (s\<lparr>provisioningOperations := (provisioningOperations s)(id' \<mapsto> operation)\<rparr>,
           None))"

definition GetProvisioningOperationByID ::
  "('p, 'd, 'u) operations \<Rightarrow> string \<Rightarrow> dberr + 'p ProvisioningOperation" where
  "GetProvisioningOperationByID s operationID =
     (case provisioningOperations s operationID of
        None \<Rightarrow> Inl NotFound
      | Some op \<Rightarrow> Inr op)"

definition UpdateProvisioningOperation ::
  "('p, 'd, 'u) operations \<Rightarrow> 'p ProvisioningOperation
     \<Rightarrow> ('p, 'd, 'u) operations \<times> (dberr + 'p ProvisioningOperation)" where
  "UpdateProvisioningOperation s op =
     (case provisioningOperations s (ID op) of
        None \<Rightarrow> (s, Inl NotFound)
      | Some oldOp \<Rightarrow>
          if Version oldOp \<noteq> Version op then (s, Inl Conflict)
          else
            (let op' = op\<lparr>Version := Version op + 1\<rparr> in
             (s\<lparr>provisioningOperations := (provisioningOperations s)(ID op' \<mapsto> op')\<rparr>,
              Inr op')))"

definition InsertDeprovisioningOperation ::
  "('p, 'd, 'u) operations \<Rightarrow> 'd DeprovisioningOperation
     \<Rightarrow> ('p, 'd, 'u) operations \<times> dberr option" where
  "InsertDeprovisioningOperation s operation =
     (let id' = ID operation in
      case deprovisioningOperations s id' of
        Some _ \<Rightarrow> (s, Some AlreadyExists)
      | None \<Rightarrow>
          (s\<lparr>deprovisioningOperations := (deprovisioningOperations s)(id' \<mapsto> operation)\<rparr>,
           None))"

definition GetDeprovisioningOperationByID ::
  "('p, 'd, 'u) operations \<Rightarrow> string \<Rightarrow> dberr + 'd DeprovisioningOperation" where
  "GetDeprovisioningOperationByID s operationID =
     (case deprovisioningOperations s operationID of
        None \<Rightarrow> Inl NotFound
      | Some op \<Rightarrow> Inr op)"

definition UpdateDeprovisioningOperation ::
  "('p, 'd, 'u) operations \<Rightarrow> 'd DeprovisioningOperation
     \<Rightarrow> ('p, 'd, 'u) operations \<times> (dberr + 'd DeprovisioningOperation)" where
  "UpdateDeprovisioningOperation s op =
     (case deprovisioningOperations s (ID op) of
        None \<Rightarrow> (s, Inl NotFound)
      | Some oldOp \<Rightarrow>
          if Version oldOp \<noteq> Version op then (s, Inl Conflict)
          else
            (let op' = op\<lparr>Version := Version op + 1\<rparr> in
             (s\<lparr>deprovisioningOperations := (deprovisioningOperations s)(ID op' \<mapsto> op')\<rparr>,
              Inr op')))"

definition InsertUpgradeKymaOperation ::
  "('p, 'd, 'u) operations \<Rightarrow> 'u UpgradeKymaOperation
     \<Rightarrow> ('p, 'd, 'u) operations \<times> dberr option" where
  "InsertUpgradeKymaOperation s operation =
     (let id' = ID operation in
      case upgradeKymaOperations s id' of
        Some _ \<Rightarrow> (s, Some AlreadyExists)
      | None \<Rightarrow>
          (s\<lparr>upgradeKymaOperations := (upgradeKymaOperations s)(id' \<mapsto> operation)\<rparr>,
           None))"

definition GetUpgradeKymaOperationByID ::
  "('p, 'd, 'u) operations \<Rightarrow> string \<Rightarrow> dberr + 'u UpgradeKymaOperation" where
  "GetUpgradeKymaOperationByID s operationID =
     (case upgradeKymaOperations s operationID of
        None \<Rightarrow> Inl NotFound
      | Some op \<Rightarrow> Inr op)"

definition UpdateUpgradeKymaOperation ::
  "('p, 'd, 'u) operations \<Rightarrow> 'u UpgradeKymaOperation
     \<Rightarrow> ('p, 'd, 'u) operations \<times> (dberr + 'u UpgradeKymaOperation)" where
  "UpdateUpgradeKymaOperation s op =
     (case upgradeKymaOperations s (ID op) of
        None \<Rightarrow> (s, Inl NotFound)
      | Some oldOp \<Rightarrow>
          if Version oldOp \<noteq> Version op then (s, Inl Conflict)
          else
            (let op' = op\<lparr>Version := Version op + 1\<rparr> in
             (s\<lparr>upgradeKymaOperations := (upgradeKymaOperations s)(ID op' \<mapsto> op')\<rparr>,
              Inr op')))"

subsection \<open>The kind-agnostic getter\<close>

text \<open>
  \<open>res\<close> starts as the nil pointer and is overwritten by each kind that has the id, in
  the order provisioning, deprovisioning, upgrade-Kyma.
\<close>

definition GetOperationByID ::
  "('p, 'd, 'u) operations \<Rightarrow> string \<Rightarrow> dberr + Operation" where
  "GetOperationByID s operationID =
     (let res = None;
          res = (case provisioningOperations s operationID of
                   Some provisionOp \<Rightarrow> Some (Operation.truncate provisionOp)
                 | None \<Rightarrow> res);
          res = (case deprovisioningOperations s operationID of
                   Some deprovisionOp \<Rightarrow> Some (Operation.truncate deprovisionOp)
                 | None \<Rightarrow> res);
          res = (case upgradeKymaOperations s operationID of
                   Some upgradeKymaOp \<Rightarrow> Some (Operation.truncate upgradeKymaOp)
                 | None \<Rightarrow> res)
      in case res of None \<Rightarrow> Inl NotFound | Some r \<Rightarrow> Inr r)"

subsection \<open>Ranging over a Go map\<close>

text \<open>
  The order in which \<open>range\<close> visits a Go map is not specified and may change from one
  \<open>range\<close> statement to the next. Every \<open>range\<close> statement of the driver therefore
  takes the order it runs in as an argument: a list of the keys. \<open>rangeOrder\<close> says
  that the list is a possible order (every key of the map, once).
\<close>

definition rangeOrder :: "('k \<rightharpoonup> 'v) \<Rightarrow> 'k list \<Rightarrow> bool" where
  "rangeOrder m ks \<longleftrightarrow> distinct ks \<and> set ks = dom m"

definition rangeValues :: "('k \<rightharpoonup> 'v) \<Rightarrow> 'k list \<Rightarrow> 'v list" where
  "rangeValues m ks = List.map_filter m ks"

subsection \<open>Operations for a list of ids\<close>

text \<open>
  The inner loop of \<open>GetOperationsForIDs\<close>: one \<open>range\<close> over a kind's map, appending
  the embedded \<open>Operation\<close> of every entry whose id is \<open>opID\<close>.
\<close>

fun appendMatching ::
  "Operation list \<Rightarrow> 'a Operation_scheme list \<Rightarrow> string \<Rightarrow> Operation list" where
  "appendMatching ops [] opID = ops"
| "appendMatching ops (op # rest) opID =
     appendMatching
       (if ID (Operation.truncate op) = opID then ops @ [Operation.truncate op] else ops)
       rest opID"

text \<open>
  The outer loop over \<open>opIdList\<close> for one kind. The \<open>n\<close>-th pass of the outer loop runs
  its \<open>range\<close> in the order \<open>ord n\<close>.
\<close>

fun collectForIDs ::
  "(string \<rightharpoonup> 'a Operation_scheme) \<Rightarrow> (nat \<Rightarrow> string list) \<Rightarrow> nat
     \<Rightarrow> Operation list \<Rightarrow> string list \<Rightarrow> Operation list" where
  "collectForIDs m ord n ops [] = ops"
| "collectForIDs m ord n ops (opID # rest) =
     collectForIDs m ord (Suc n) (appendMatching ops (rangeValues m (ord n)) opID) rest"

definition GetOperationsForIDs ::
  "('p, 'd, 'u) operations \<Rightarrow> (nat \<Rightarrow> string list) \<Rightarrow> (nat \<Rightarrow> string list)
     \<Rightarrow> (nat \<Rightarrow> string list) \<Rightarrow> string list \<Rightarrow> dberr + Operation list" where
  "GetOperationsForIDs s ordU ordP ordD opIdList =
     (let ops = [];
          ops = collectForIDs (upgradeKymaOperations s) ordU 0 ops opIdList;
          ops = collectForIDs (provisioningOperations s) ordP 0 ops opIdList;
          ops = collectForIDs (deprovisioningOperations s) ordD 0 ops opIdList
      in if length ops = 0 then Inl NotFound else Inr ops)"

subsection \<open>Statistics and listings of upgrade-Kyma operations\<close>

text \<open>
  The result map starts with the three states at 0; a read of a missing key of a Go map
  gives 0. The counts are Go \<open>int\<close>s that count entries of a map held in memory, far from
  \<open>2 ^ 63\<close>.
\<close>

definition GetOperationStatsForOrchestration ::
  "('p, 'd, 'u) operations \<Rightarrow> string list \<Rightarrow> string
     \<Rightarrow> dberr + (LastOperationState \<rightharpoonup> int)" where
  "GetOperationStatsForOrchestration s ks orchestrationID =
     (let result = [InProgress \<mapsto> 0, Succeeded \<mapsto> 0, Failed \<mapsto> 0];
          result =
            foldl (\<lambda>result op.
                     result(State op \<mapsto>
                       (case result (State op) of None \<Rightarrow> 0 | Some n \<Rightarrow> n) + 1))
              result (rangeValues (upgradeKymaOperations s) ks)
      in Inr result)"

text \<open>
  \<open>sort.Slice\<close> with the comparison \<open>CreatedAt.Before\<close> is library code: it is the
  sort by the key \<open>CreatedAt\<close>, ascending.
\<close>

definition getUpgradeSortedByCreatedAt ::
  "(string \<rightharpoonup> 'u UpgradeKymaOperation) \<Rightarrow> string list \<Rightarrow> 'u UpgradeKymaOperation list" where
  "getUpgradeSortedByCreatedAt operations ks =
     (let operationsList = foldl (\<lambda>operationsList v. operationsList @ [v]) []
                             (rangeValues operations ks)
      in sort_key CreatedAt operationsList)"

text \<open>
  \<open>ks1\<close> is the order of the \<open>range\<close> in the method's body, \<open>ks2\<close> the order of the one
  in \<open>getUpgradeSortedByCreatedAt\<close>. The first \<open>result\<close> is built and then replaced by
  an empty slice, as in the source.
\<close>

definition ListUpgradeKymaOperationsByInstanceID ::
  "('p, 'd, 'u) operations \<Rightarrow> string list \<Rightarrow> string list \<Rightarrow> string
     \<Rightarrow> dberr + 'u UpgradeKymaOperation list" where
  "ListUpgradeKymaOperationsByInstanceID s ks1 ks2 instanceID =
     (let result = [];
          result = foldl (\<lambda>result op. if InstanceID op = instanceID then result @ [op] else result)
                     result (rangeValues (upgradeKymaOperations s) ks1);
          sortedOperations = getUpgradeSortedByCreatedAt (upgradeKymaOperations s) ks2;
          result = ([] :: 'u UpgradeKymaOperation list)
      in Inr sortedOperations)"

text \<open>A Go \<open>int\<close> is 64 bits wide and signed: \<open>wrap64\<close> is what \<open>+\<close> and \<open>*\<close> keep.\<close>

definition wrap64 :: "int \<Rightarrow> int" where
  "wrap64 x = (x + 2 ^ 63) mod 2 ^ 64 - 2 ^ 63"

text \<open>
  Modelled from the spec: \<open>pagination.ConvertPageAndPageSizeToOffset\<close> is not among the
  source files. The spec's \<open>List(filter, page, pageSize)\<close> is restricted to the requested
  page, pages being counted from 1: page \<open>p\<close> starts after the \<open>p - 1\<close> pages before it.
  The listing below takes the conversion as its argument \<open>conv\<close>.
\<close>

definition ConvertPageAndPageSizeToOffset :: "int \<Rightarrow> int \<Rightarrow> int" where
  "ConvertPageAndPageSizeToOffset pageSize page =
     (if page < 2 then 0 else wrap64 ((page - 1) * pageSize))"

datatype panic = IndexOutOfRange

text \<open>
  The paging loop. \<open>sortedOperations[i]\<close> panics when \<open>i\<close> is not an index of the slice;
  the read of the map by the key \<open>sortedOperations[i].OrchestrationID\<close> gives the zero
  value \<open>zero\<close> of the struct when the key is missing.
\<close>

function pageLoop ::
  "(string \<rightharpoonup> 'u UpgradeKymaOperation) \<Rightarrow> 'u UpgradeKymaOperation
     \<Rightarrow> 'u UpgradeKymaOperation list \<Rightarrow> int \<Rightarrow> int \<Rightarrow> int
     \<Rightarrow> 'u UpgradeKymaOperation list \<Rightarrow> panic + 'u UpgradeKymaOperation list" where
  "pageLoop m zero sortedOperations offset pageSize i result =
     (if i < wrap64 (offset + pageSize)
         \<and> i < wrap64 (int (length sortedOperations) + offset)
      then
        (if 0 \<le> i \<and> i < int (length sortedOperations)
         then pageLoop m zero sortedOperations offset pageSize (wrap64 (i + 1))
                (result @
                   [case m (OrchestrationID (sortedOperations ! nat i)) of
                      None \<Rightarrow> zero
                    | Some v \<Rightarrow> v])
         else Inl IndexOutOfRange)
      else Inr result)"
  by pat_completeness auto
termination
proof (relation "measure (\<lambda>(m, zero, sortedOperations, offset, pageSize, i, result).
          if 0 \<le> i \<and> i < int (length sortedOperations)
          then (if i < 2 ^ 63 then nat (2 ^ 63 - i) else 2 ^ 63 + 1)
          else 0)")
  show "wf (measure (\<lambda>(m :: string \<rightharpoonup> 'u UpgradeKymaOperation, zero :: 'u UpgradeKymaOperation,
          sortedOperations :: 'u UpgradeKymaOperation list, offset :: int, pageSize :: int,
          i :: int, result :: 'u UpgradeKymaOperation list).
          if 0 \<le> i \<and> i < int (length sortedOperations)
          then (if i < 2 ^ 63 then nat (2 ^ 63 - i) else 2 ^ 63 + 1)
          else 0))"
    by simp
next
  fix m :: "string \<rightharpoonup> 'u UpgradeKymaOperation" and zero :: "'u UpgradeKymaOperation"
    and sortedOperations :: "'u UpgradeKymaOperation list"
    and offset pageSize i :: int and result :: "'u UpgradeKymaOperation list"
  assume "0 \<le> i \<and> i < int (length sortedOperations)"
  then have r: "0 \<le> i" "i < int (length sortedOperations)" by simp_all
  have w: "- (2 ^ 63) \<le> wrap64 (i + 1)" "wrap64 (i + 1) < 2 ^ 63"
    by (simp_all add: wrap64_def)
  have s: "i < 2 ^ 63 - 1 \<Longrightarrow> wrap64 (i + 1) = i + 1"
    using r by (simp add: wrap64_def)
  have t: "i = 2 ^ 63 - 1 \<Longrightarrow> wrap64 (i + 1) < 0"
    by (simp add: wrap64_def)
  show "((m, zero, sortedOperations, offset, pageSize, wrap64 (i + 1),
           result @ [case m (OrchestrationID (sortedOperations ! nat i)) of
                       None \<Rightarrow> zero | Some v \<Rightarrow> v]),
          (m, zero, sortedOperations, offset, pageSize, i, result))
        \<in> measure (\<lambda>(m, zero, sortedOperations, offset, pageSize, i, result).
             if 0 \<le> i \<and> i < int (length sortedOperations)
             then (if i < 2 ^ 63 then nat (2 ^ 63 - i) else 2 ^ 63 + 1)
             else 0)"
  proof (cases "i < 2 ^ 63 - 1")
    case True
    then show ?thesis using r s by auto
  next
    case False
    show ?thesis
    proof (cases "i = 2 ^ 63 - 1")
      case True
      then show ?thesis using r t by auto
    next
      case False
      with \<open>\<not> i < 2 ^ 63 - 1\<close> have "2 ^ 63 \<le> i" by simp
      then show ?thesis using r w by auto
    qed
  qed
qed

declare pageLoop.simps [simp del]

text \<open>
  \<open>len(s.upgradeKymaOperations)\<close> is the number of keys of the map. The method's
  \<open>error\<close> result is always nil, so the outcome is a panic or the three values.
\<close>

definition ListUpgradeKymaOperationsByOrchestrationID ::
  "(int \<Rightarrow> int \<Rightarrow> int) \<Rightarrow> 'u UpgradeKymaOperation \<Rightarrow> ('p, 'd, 'u) operations
     \<Rightarrow> string list \<Rightarrow> string list \<Rightarrow> string \<Rightarrow> int \<Rightarrow> int
     \<Rightarrow> panic + ('u UpgradeKymaOperation list \<times> int \<times> int)" where
  "ListUpgradeKymaOperationsByOrchestrationID conv zero s ks1 ks2 orchestrationID pageSize page =
     (let result = [];
          result = foldl (\<lambda>result op.
                            if OrchestrationID op = orchestrationID then result @ [op]
                            else result)
                     result (rangeValues (upgradeKymaOperations s) ks1);
          offset = conv pageSize page;
          sortedOperations = getUpgradeSortedByCreatedAt (upgradeKymaOperations s) ks2;
          result = []
      in case pageLoop (upgradeKymaOperations s) zero sortedOperations offset pageSize
                offset result of
           Inl p \<Rightarrow> Inl p
         | Inr result \<Rightarrow>
             Inr (result, int (length result), int (card (dom (upgradeKymaOperations s)))))"

section \<open>Runtime target options of the command line\<close>

text \<open>
  \<open>internal.RuntimeTarget\<close> and \<open>internal.TargetSpec\<close>, with the fields the parser
  writes. All of them are strings, empty in the zero value.
\<close>

record RuntimeTarget =
  Target :: string
  GlobalAccount :: string
  SubAccount :: string
  Region :: string
  RuntimeID :: string

record TargetSpec =
  Include :: "RuntimeTarget list"
  Exclude :: "RuntimeTarget list"

definition zeroRuntimeTarget :: RuntimeTarget where
  "zeroRuntimeTarget =
     \<lparr>Target = [], GlobalAccount = [], SubAccount = [], Region = [], RuntimeID = []\<rparr>"

definition targetAccount :: string where
  "targetAccount = ''account''"

definition targetSubaccount :: string where
  "targetSubaccount = ''subaccount''"

definition targetRuntimeID :: string where
  "targetRuntimeID = ''runtime-id''"

definition targetRegion :: string where
  "targetRegion = ''region''"

text \<open>
  Modelled from the spec: the constant \<open>internal.TargetAll\<close> is declared outside the
  source files; the spec and the help text of \<open>--target\<close> name the literal \<open>all\<close>.
\<close>

definition TargetAll :: string where
  "TargetAll = ''all''"

text \<open>
  The errors of the parser, one constructor per \<open>errors.New\<close> or \<open>fmt.Errorf\<close> with
  the values it formats. \<open>sv[0]\<close> on an empty slice would panic.
\<close>

datatype cli_error =
    NoTargetSpecified
  | AllWithTargetExclude
  | MissingRequiredValue string string
  | InvalidSelector string string
  | IndexPanic

text \<open>
  \<open>strings.Split\<close> of the Go library for a separator of one byte: the pieces between
  the separators, one more than there are separators.
\<close>

fun strings_Split :: "string \<Rightarrow> char \<Rightarrow> string list" where
  "strings_Split [] sep = [[]]"
| "strings_Split (c # cs) sep =
     (if c = sep then [] # strings_Split cs sep
      else (case strings_Split cs sep of
              [] \<Rightarrow> [[c]]
            | w # ws \<Rightarrow> (c # w) # ws))"

definition checkRuntimeTargetSelector :: "string \<Rightarrow> string \<Rightarrow> string \<Rightarrow> cli_error option" where
  "checkRuntimeTargetSelector selectorKey selectorValue flagName =
     (if selectorValue = [] then Some (MissingRequiredValue flagName selectorKey) else None)"

text \<open>
  The loop over the selectors of one target specifier; a \<open>return\<close> ends it.
  \<open>selectorKey\<close> is \<open>sv[0]\<close>, the head of the pieces; \<open>selectorValue\<close> is \<open>sv[1]\<close>
  when \<open>len(sv) > 1\<close>, the head of the remaining pieces, and empty otherwise. The cases
  of the \<open>switch\<close> are tried in the order of the source.
\<close>

fun parseSelectors ::
  "bool \<Rightarrow> string \<Rightarrow> string list \<Rightarrow> RuntimeTarget \<Rightarrow> cli_error + RuntimeTarget" where
  "parseSelectors include flagName [] target = Inr target"
| "parseSelectors include flagName (selector # rest) target =
     (case strings_Split selector CHR ''='' of
        [] \<Rightarrow> Inl IndexPanic
      | selectorKey # svRest \<Rightarrow>
          (let selectorValue = (case svRest of [] \<Rightarrow> [] | v # _ \<Rightarrow> v) in
           if selectorKey = TargetAll then
             (if \<not> include then Inl AllWithTargetExclude
              else parseSelectors include flagName rest (target\<lparr>Target := TargetAll\<rparr>))
           else if selectorKey = targetAccount then
             (case checkRuntimeTargetSelector selectorKey selectorValue flagName of
                Some err \<Rightarrow> Inl err
              | None \<Rightarrow>
                  parseSelectors include flagName rest (target\<lparr>GlobalAccount := selectorValue\<rparr>))
           else if selectorKey = targetSubaccount then
             (case checkRuntimeTargetSelector selectorKey selectorValue flagName of
                Some err \<Rightarrow> Inl err
              | None \<Rightarrow>
                  parseSelectors include flagName rest (target\<lparr>SubAccount := selectorValue\<rparr>))
           else if selectorKey = targetRegion then
             (case checkRuntimeTargetSelector selectorKey selectorValue flagName of
                Some err \<Rightarrow> Inl err
              | None \<Rightarrow>
                  parseSelectors include flagName rest (target\<lparr>Region := selectorValue\<rparr>))
           else if selectorKey = targetRuntimeID then
             (case checkRuntimeTargetSelector selectorKey selectorValue flagName of
                Some err \<Rightarrow> Inl err
              | None \<Rightarrow>
                  parseSelectors include flagName rest (target\<lparr>RuntimeID := selectorValue\<rparr>))
           else Inl (InvalidSelector flagName selectorKey)))"

text \<open>
  \<open>targets\<close> is the slice behind the pointer; the result is the slice after the call
  and the error (\<open>None\<close> for nil).
\<close>

definition parseRuntimeTarget ::
  "string \<Rightarrow> RuntimeTarget list \<Rightarrow> bool \<Rightarrow> RuntimeTarget list \<times> cli_error option" where
  "parseRuntimeTarget targetInput targets include =
     (let target = zeroRuntimeTarget;
          selectors = strings_Split targetInput CHR '','';
          flagName = (if include then ''--target'' else ''--target-exclude'')
      in case parseSelectors include flagName selectors target of
           Inl err \<Rightarrow> (targets, Some err)
         | Inr target \<Rightarrow> (targets @ [target], None))"

text \<open>
  Either \<open>for\<close> loop of \<open>ValidateTransformRuntimeTargetOpts\<close>: the inputs are parsed in
  order into the list behind \<open>targets\<close>, and the first error is returned.
\<close>

fun parseTargets ::
  "bool \<Rightarrow> string list \<Rightarrow> RuntimeTarget list \<Rightarrow> RuntimeTarget list \<times> cli_error option" where
  "parseTargets include [] targets = (targets, None)"
| "parseTargets include (target # rest) targets =
     (case parseRuntimeTarget target targets include of
        (targets', Some err) \<Rightarrow> (targets', Some err)
      | (targets', None) \<Rightarrow> parseTargets include rest targets')"

definition ValidateTransformRuntimeTargetOpts ::
  "string list \<Rightarrow> string list \<Rightarrow> TargetSpec \<Rightarrow> TargetSpec \<times> cli_error option" where
  "ValidateTransformRuntimeTargetOpts targetInputs targetExcludeInputs targetSpec =
     (if length targetInputs = 0 then (targetSpec, Some NoTargetSpecified)
      else
        (case parseTargets True targetInputs (Include targetSpec) of
           (inc, Some err) \<Rightarrow> (targetSpec\<lparr>Include := inc\<rparr>, Some err)
         | (inc, None) \<Rightarrow>
             (case parseTargets False targetExcludeInputs (Exclude targetSpec) of
                (exc, Some err) \<Rightarrow> (targetSpec\<lparr>Include := inc, Exclude := exc\<rparr>, Some err)
              | (exc, None) \<Rightarrow> (targetSpec\<lparr>Include := inc, Exclude := exc\<rparr>, None))))"

section \<open>What a target specifier describes\<close>

text \<open>
  The reading of a target specifier that the parser is compared with. It follows the help
  text of \<open>--target\<close> and the spec's \<open>TargetSelector\<close>, not the parser: a specifier is a
  comma-separated list of selectors; a selector is \<open>all\<close> or \<open>key=value\<close>, its key the
  text before the first \<open>=\<close> and its value the text after it (up to a second \<open>=\<close>).
  A selector is well formed when it is \<open>all\<close> in an include position or has one of the
  four keys and a non-empty value. The target a specifier describes has \<open>Target\<close> set to
  \<open>all\<close> when a selector \<open>all\<close> is present, and each of the four fields set to the
  value given for its key (the last one, when the key is given more than once), empty
  when the key is not given.
\<close>

definition selectorKeyOf :: "string \<Rightarrow> string" where
  "selectorKeyOf selector = strings_Split selector CHR ''='' ! 0"

definition selectorValueOf :: "string \<Rightarrow> string" where
  "selectorValueOf selector = strings_Split selector CHR ''='' ! 1"

definition wellFormedSelector :: "bool \<Rightarrow> string \<Rightarrow> bool" where
  "wellFormedSelector include selector \<longleftrightarrow>
     (selectorKeyOf selector = TargetAll \<and> include)
     \<or> (selectorKeyOf selector \<in> {targetAccount, targetSubaccount, targetRegion, targetRuntimeID}
         \<and> 1 < length (strings_Split selector CHR ''='')
         \<and> selectorValueOf selector \<noteq> [])"

definition lastValueFor :: "string \<Rightarrow> string list \<Rightarrow> string" where
  "lastValueFor key selectors =
     (let given = filter (\<lambda>selector. selectorKeyOf selector = key) selectors
      in if given = [] then [] else selectorValueOf (last given))"

definition describedTarget :: "string \<Rightarrow> RuntimeTarget" where
  "describedTarget targetInput =
     (let selectors = strings_Split targetInput CHR '','' in
      \<lparr>Target = (if TargetAll \<in> set (map selectorKeyOf selectors) then TargetAll else []),
       GlobalAccount = lastValueFor targetAccount selectors,
       SubAccount = lastValueFor targetSubaccount selectors,
       Region = lastValueFor targetRegion selectors,
       RuntimeID = lastValueFor targetRuntimeID selectors\<rparr>)"

section \<open>The invariant of the storage maps\<close>

text \<open>
  Every entry of a kind's map is stored under the id of its operation: the struct is
  created empty by \<open>NewOperation\<close>, its fields are private to the package, and the only
  writes are \<open>s.m[operation.ID] = operation\<close> of Insert and \<open>s.m[op.ID] = op\<close> of Update.
\<close>

definition keyedByID :: "(string \<rightharpoonup> 'a Operation_scheme) \<Rightarrow> bool" where
  "keyedByID m \<longleftrightarrow> (\<forall>k v. m k = Some v \<longrightarrow> ID v = k)"

definition storeKeyedByID :: "('p, 'd, 'u) operations \<Rightarrow> bool" where
  "storeKeyedByID s \<longleftrightarrow>
     keyedByID (provisioningOperations s)
     \<and> keyedByID (deprovisioningOperations s)
     \<and> keyedByID (upgradeKymaOperations s)"

section \<open>Sample values\<close>

text \<open>
  Operations of each kind with no fields of their own, and the zero value of
  \<open>UpgradeKymaOperation\<close>, used to run the definitions on concrete stores.
\<close>

definition sampleProvisioning ::
  "string \<Rightarrow> 64 word \<Rightarrow> int \<Rightarrow> LastOperationState \<Rightarrow> string \<Rightarrow> unit ProvisioningOperation" where
  "sampleProvisioning i v t st orch =
     \<lparr>ID = i, Version = v, CreatedAt = t, InstanceID = ''inst'', State = st,
      Description = [], OrchestrationID = orch, ProvisioningFields = ()\<rparr>"

definition sampleDeprovisioning ::
  "string \<Rightarrow> 64 word \<Rightarrow> int \<Rightarrow> LastOperationState \<Rightarrow> string \<Rightarrow> unit DeprovisioningOperation" where
  "sampleDeprovisioning i v t st orch =
     \<lparr>ID = i, Version = v, CreatedAt = t, InstanceID = ''inst'', State = st,
      Description = [], OrchestrationID = orch, DeprovisioningFields = ()\<rparr>"

definition sampleUpgradeKyma ::
  "string \<Rightarrow> 64 word \<Rightarrow> int \<Rightarrow> LastOperationState \<Rightarrow> string \<Rightarrow> unit UpgradeKymaOperation" where
  "sampleUpgradeKyma i v t st orch =
     \<lparr>ID = i, Version = v, CreatedAt = t, InstanceID = ''inst'', State = st,
      Description = [], OrchestrationID = orch, UpgradeKymaFields = ()\<rparr>"

definition zeroUpgradeKyma :: "unit UpgradeKymaOperation" where
  "zeroUpgradeKyma =
     \<lparr>ID = [], Version = 0, CreatedAt = 0, InstanceID = [], State = [],
      Description = [], OrchestrationID = [], UpgradeKymaFields = ()\<rparr>"

text \<open>A store with the id \<open>a\<close> in every kind, \<open>b\<close> in two and \<open>c\<close> in one.\<close>

definition sampleStore :: "(unit, unit, unit) operations" where
  "sampleStore =
     \<lparr>provisioningOperations =
        [''a'' \<mapsto> sampleProvisioning ''a'' 3 10 Succeeded [],
         ''b'' \<mapsto> sampleProvisioning ''b'' 0 20 Succeeded [],
         ''c'' \<mapsto> sampleProvisioning ''c'' 0 30 InProgress []],
      deprovisioningOperations =
        [''a'' \<mapsto> sampleDeprovisioning ''a'' 3 40 Failed [],
         ''b'' \<mapsto> sampleDeprovisioning ''b'' 0 50 InProgress []],
      upgradeKymaOperations =
        [''a'' \<mapsto> sampleUpgradeKyma ''a'' 3 60 Succeeded ''o2'']\<rparr>"

text \<open>A store whose upgrade-Kyma operations belong to two orchestrations.\<close>

definition upgradeStore :: "(unit, unit, unit) operations" where
  "upgradeStore =
     \<lparr>provisioningOperations = Map.empty,
      deprovisioningOperations = Map.empty,
      upgradeKymaOperations =
        [''u1'' \<mapsto> sampleUpgradeKyma ''u1'' 0 1 Succeeded ''o1'',
         ''u2'' \<mapsto> sampleUpgradeKyma ''u2'' 0 2 Succeeded ''o2'']\<rparr>"

text \<open>A store whose one provisioning operation has the largest version, \<open>2 ^ 63 - 1\<close>.\<close>

definition maxVersionStore :: "(unit, unit, unit) operations" where
  "maxVersionStore =
     \<lparr>provisioningOperations =
        [''m'' \<mapsto> sampleProvisioning ''m'' 9223372036854775807 10 Succeeded []],
      deprovisioningOperations = Map.empty,
      upgradeKymaOperations = Map.empty\<rparr>"

section \<open>Properties of the storage driver\<close>

subsection \<open>Update is a compare-and-swap on the version\<close>

lemma sint_Version_succ:
  "sint (v :: 64 word) \<noteq> 2 ^ 63 - 1 \<Longrightarrow> sint (v + 1) = sint v + 1"
proof -
  assume a: "sint v \<noteq> 2 ^ 63 - 1"
  have "sint v < 2 ^ 63" using sint_lt [of v] by simp
  moreover have "- (2 ^ 63) \<le> sint v" using sint_ge [of v] by simp
  ultimately have "- (2 ^ 63) \<le> sint v + 1" "sint v + 1 < 2 ^ 63" using a by auto
  then have "signed_take_bit 63 (sint v + 1) = sint v + 1"
    by (simp add: signed_take_bit_int_eq_self)
  then show ?thesis by (simp add: sint_word_ariths)
qed

lemma sint_Version_wrap:
  "sint ((v :: 64 word) + 1) = (if sint v = 2 ^ 63 - 1 then - (2 ^ 63) else sint v + 1)"
proof (cases "sint v = 2 ^ 63 - 1")
  case True
  have "sint (v + 1) = signed_take_bit 63 (sint v + 1)"
    by (simp add: sint_word_ariths)
  also have "\<dots> = signed_take_bit 63 (2 ^ 63 :: int)" using True by simp
  also have "\<dots> = - (2 ^ 63)" by (simp add: signed_take_bit_eq_take_bit_shift)
  finally show ?thesis using True by simp
next
  case False
  then show ?thesis by (simp add: sint_Version_succ)
qed

lemma UpdateProvisioningOperation_stored_version:
  "provisioningOperations s (ID op) = Some old \<Longrightarrow> Version old = Version op
     \<Longrightarrow> map_option (\<lambda>stored. sint (Version stored))
           (provisioningOperations (fst (UpdateProvisioningOperation s op)) (ID op)) =
         Some (if sint (Version op) = 2 ^ 63 - 1 then - (2 ^ 63) else sint (Version op) + 1)"
  by (simp add: UpdateProvisioningOperation_def Let_def sint_Version_wrap)

lemma UpdateDeprovisioningOperation_stored_version:
  "deprovisioningOperations s (ID op) = Some old \<Longrightarrow> Version old = Version op
     \<Longrightarrow> map_option (\<lambda>stored. sint (Version stored))
           (deprovisioningOperations (fst (UpdateDeprovisioningOperation s op)) (ID op)) =
         Some (if sint (Version op) = 2 ^ 63 - 1 then - (2 ^ 63) else sint (Version op) + 1)"
  by (simp add: UpdateDeprovisioningOperation_def Let_def sint_Version_wrap)

lemma UpdateUpgradeKymaOperation_stored_version:
  "upgradeKymaOperations s (ID op) = Some old \<Longrightarrow> Version old = Version op
     \<Longrightarrow> map_option (\<lambda>stored. sint (Version stored))
           (upgradeKymaOperations (fst (UpdateUpgradeKymaOperation s op)) (ID op)) =
         Some (if sint (Version op) = 2 ^ 63 - 1 then - (2 ^ 63) else sint (Version op) + 1)"
  by (simp add: UpdateUpgradeKymaOperation_def Let_def sint_Version_wrap)

lemma UpdateProvisioningOperation_conflict:
  "provisioningOperations s (ID op) = Some old \<Longrightarrow> Version old \<noteq> Version op
     \<Longrightarrow> UpdateProvisioningOperation s op = (s, Inl Conflict)"
  by (simp add: UpdateProvisioningOperation_def)

lemma UpdateProvisioningOperation_success:
  "provisioningOperations s (ID op) = Some old \<Longrightarrow> Version old = Version op
     \<Longrightarrow> UpdateProvisioningOperation s op =
           (s\<lparr>provisioningOperations := (provisioningOperations s)(ID op \<mapsto> op\<lparr>Version := Version op + 1\<rparr>)\<rparr>,
            Inr (op\<lparr>Version := Version op + 1\<rparr>))"
  by (simp add: UpdateProvisioningOperation_def Let_def)

lemma UpdateProvisioningOperation_second:
  assumes "provisioningOperations s (ID op1) = Some old" "Version old = Version op1"
    "ID op2 = ID op1" "Version op2 = Version op1"
  shows "UpdateProvisioningOperation (fst (UpdateProvisioningOperation s op1)) op2 =
           (s\<lparr>provisioningOperations := (provisioningOperations s)(ID op1 \<mapsto> op1\<lparr>Version := Version op1 + 1\<rparr>)\<rparr>,
            Inl Conflict)"
  using assms by (simp add: UpdateProvisioningOperation_def Let_def)

lemma UpdateDeprovisioningOperation_conflict:
  "deprovisioningOperations s (ID op) = Some old \<Longrightarrow> Version old \<noteq> Version op
     \<Longrightarrow> UpdateDeprovisioningOperation s op = (s, Inl Conflict)"
  by (simp add: UpdateDeprovisioningOperation_def)

lemma UpdateDeprovisioningOperation_success:
  "deprovisioningOperations s (ID op) = Some old \<Longrightarrow> Version old = Version op
     \<Longrightarrow> UpdateDeprovisioningOperation s op =
           (s\<lparr>deprovisioningOperations := (deprovisioningOperations s)(ID op \<mapsto> op\<lparr>Version := Version op + 1\<rparr>)\<rparr>,
            Inr (op\<lparr>Version := Version op + 1\<rparr>))"
  by (simp add: UpdateDeprovisioningOperation_def Let_def)

lemma UpdateDeprovisioningOperation_second:
  assumes "deprovisioningOperations s (ID op1) = Some old" "Version old = Version op1"
    "ID op2 = ID op1" "Version op2 = Version op1"
  shows "UpdateDeprovisioningOperation (fst (UpdateDeprovisioningOperation s op1)) op2 =
           (s\<lparr>deprovisioningOperations := (deprovisioningOperations s)(ID op1 \<mapsto> op1\<lparr>Version := Version op1 + 1\<rparr>)\<rparr>,
            Inl Conflict)"
  using assms by (simp add: UpdateDeprovisioningOperation_def Let_def)

lemma UpdateUpgradeKymaOperation_conflict:
  "upgradeKymaOperations s (ID op) = Some old \<Longrightarrow> Version old \<noteq> Version op
     \<Longrightarrow> UpdateUpgradeKymaOperation s op = (s, Inl Conflict)"
  by (simp add: UpdateUpgradeKymaOperation_def)

lemma UpdateUpgradeKymaOperation_success:
  "upgradeKymaOperations s (ID op) = Some old \<Longrightarrow> Version old = Version op
     \<Longrightarrow> UpdateUpgradeKymaOperation s op =
           (s\<lparr>upgradeKymaOperations := (upgradeKymaOperations s)(ID op \<mapsto> op\<lparr>Version := Version op + 1\<rparr>)\<rparr>,
            Inr (op\<lparr>Version := Version op + 1\<rparr>))"
  by (simp add: UpdateUpgradeKymaOperation_def Let_def)

lemma UpdateUpgradeKymaOperation_second:
  assumes "upgradeKymaOperations s (ID op1) = Some old" "Version old = Version op1"
    "ID op2 = ID op1" "Version op2 = Version op1"
  shows "UpdateUpgradeKymaOperation (fst (UpdateUpgradeKymaOperation s op1)) op2 =
           (s\<lparr>upgradeKymaOperations := (upgradeKymaOperations s)(ID op1 \<mapsto> op1\<lparr>Version := Version op1 + 1\<rparr>)\<rparr>,
            Inl Conflict)"
  using assms by (simp add: UpdateUpgradeKymaOperation_def Let_def)

text \<open>
  Claim C1 says that a successful update stores the version incremented by exactly 1.
  The version is a Go \<open>int\<close> and Insert accepts any: with the largest one stored,
  \<open>2 ^ 63 - 1\<close>, the update succeeds and the stored version is \<open>- (2 ^ 63)\<close>, not one
  more.
\<close>

theorem Update_version_wraps_at_largest:
  "maxVersionStore =
     fst (InsertProvisioningOperation NewOperation
            (sampleProvisioning ''m'' 9223372036854775807 10 Succeeded []))
  \<and> provisioningOperations maxVersionStore ''m''
      = Some (sampleProvisioning ''m'' 9223372036854775807 10 Succeeded [])
  \<and> sint (Version (sampleProvisioning ''m'' 9223372036854775807 11 Failed []))
      = 9223372036854775807
  \<and> snd (UpdateProvisioningOperation maxVersionStore
            (sampleProvisioning ''m'' 9223372036854775807 11 Failed []))
      = Inr (sampleProvisioning ''m'' 9223372036854775808 11 Failed [])
  \<and> map_option (\<lambda>stored. sint (Version stored))
        (provisioningOperations
           (fst (UpdateProvisioningOperation maxVersionStore
                   (sampleProvisioning ''m'' 9223372036854775807 11 Failed []))) ''m'')
      = Some (- 9223372036854775808)
  \<and> map_option (\<lambda>stored. sint (Version stored))
        (provisioningOperations
           (fst (UpdateProvisioningOperation maxVersionStore
                   (sampleProvisioning ''m'' 9223372036854775807 11 Failed []))) ''m'')
      \<noteq> Some (sint (Version (sampleProvisioning ''m'' 9223372036854775807 11 Failed [])) + 1)"
  by (simp add: maxVersionStore_def NewOperation_def InsertProvisioningOperation_def
      UpdateProvisioningOperation_def sampleProvisioning_def Let_def)

text \<open>
  Claim C1, amended. Let an operation with the id of the given one be stored, for any of
  the three kinds. If the given version differs from the stored one, the update returns
  \<open>Conflict\<close> and the store is as before. If the versions are equal, the update
  succeeds and the entry becomes the given value with the version plus 1 in Go's 64-bit
  \<open>int\<close>: the stored version, read as a signed number, is exactly one more than the
  given one, except that the largest \<open>int\<close> wraps to the smallest. A second update
  submitted with the same id and the same, now stale, version returns \<open>Conflict\<close> and
  leaves the first one's value stored: of two updates against one stored version exactly
  the first to run succeeds.
\<close>

theorem Update_compare_and_swap:
  "(provisioningOperations s (ID pOp) = Some pOld \<longrightarrow>
      (Version pOld \<noteq> Version pOp \<longrightarrow>
         UpdateProvisioningOperation s pOp = (s, Inl Conflict))
    \<and> (Version pOld = Version pOp \<longrightarrow>
         UpdateProvisioningOperation s pOp =
           (s\<lparr>provisioningOperations :=
                (provisioningOperations s)(ID pOp \<mapsto> pOp\<lparr>Version := Version pOp + 1\<rparr>)\<rparr>,
            Inr (pOp\<lparr>Version := Version pOp + 1\<rparr>))
       \<and> map_option (\<lambda>stored. sint (Version stored))
             (provisioningOperations (fst (UpdateProvisioningOperation s pOp)) (ID pOp)) =
           Some (if sint (Version pOp) = 2 ^ 63 - 1 then - (2 ^ 63)
                 else sint (Version pOp) + 1)
       \<and> (ID pOp' = ID pOp \<and> Version pOp' = Version pOp \<longrightarrow>
            UpdateProvisioningOperation (fst (UpdateProvisioningOperation s pOp)) pOp' =
              (s\<lparr>provisioningOperations :=
                   (provisioningOperations s)(ID pOp \<mapsto> pOp\<lparr>Version := Version pOp + 1\<rparr>)\<rparr>,
               Inl Conflict))))
  \<and> (deprovisioningOperations s (ID dOp) = Some dOld \<longrightarrow>
      (Version dOld \<noteq> Version dOp \<longrightarrow>
         UpdateDeprovisioningOperation s dOp = (s, Inl Conflict))
    \<and> (Version dOld = Version dOp \<longrightarrow>
         UpdateDeprovisioningOperation s dOp =
           (s\<lparr>deprovisioningOperations :=
                (deprovisioningOperations s)(ID dOp \<mapsto> dOp\<lparr>Version := Version dOp + 1\<rparr>)\<rparr>,
            Inr (dOp\<lparr>Version := Version dOp + 1\<rparr>))
       \<and> map_option (\<lambda>stored. sint (Version stored))
             (deprovisioningOperations (fst (UpdateDeprovisioningOperation s dOp)) (ID dOp)) =
           Some (if sint (Version dOp) = 2 ^ 63 - 1 then - (2 ^ 63)
                 else sint (Version dOp) + 1)
       \<and> (ID dOp' = ID dOp \<and> Version dOp' = Version dOp \<longrightarrow>
            UpdateDeprovisioningOperation (fst (UpdateDeprovisioningOperation s dOp)) dOp' =
              (s\<lparr>deprovisioningOperations :=
                   (deprovisioningOperations s)(ID dOp \<mapsto> dOp\<lparr>Version := Version dOp + 1\<rparr>)\<rparr>,
               Inl Conflict))))
  \<and> (upgradeKymaOperations s (ID uOp) = Some uOld \<longrightarrow>
      (Version uOld \<noteq> Version uOp \<longrightarrow>
         UpdateUpgradeKymaOperation s uOp = (s, Inl Conflict))
    \<and> (Version uOld = Version uOp \<longrightarrow>
         UpdateUpgradeKymaOperation s uOp =
           (s\<lparr>upgradeKymaOperations :=
                (upgradeKymaOperations s)(ID uOp \<mapsto> uOp\<lparr>Version := Version uOp + 1\<rparr>)\<rparr>,
            Inr (uOp\<lparr>Version := Version uOp + 1\<rparr>))
       \<and> map_option (\<lambda>stored. sint (Version stored))
             (upgradeKymaOperations (fst (UpdateUpgradeKymaOperation s uOp)) (ID uOp)) =
           Some (if sint (Version uOp) = 2 ^ 63 - 1 then - (2 ^ 63)
                 else sint (Version uOp) + 1)
       \<and> (ID uOp' = ID uOp \<and> Version uOp' = Version uOp \<longrightarrow>
            UpdateUpgradeKymaOperation (fst (UpdateUpgradeKymaOperation s uOp)) uOp' =
              (s\<lparr>upgradeKymaOperations :=
                   (upgradeKymaOperations s)(ID uOp \<mapsto> uOp\<lparr>Version := Version uOp + 1\<rparr>)\<rparr>,
               Inl Conflict))))"
  by (simp add: UpdateProvisioningOperation_conflict UpdateProvisioningOperation_success
      UpdateProvisioningOperation_second UpdateDeprovisioningOperation_conflict
      UpdateDeprovisioningOperation_success UpdateDeprovisioningOperation_second
      UpdateUpgradeKymaOperation_conflict UpdateUpgradeKymaOperation_success
      UpdateUpgradeKymaOperation_second sint_Version_wrap)

theorem Update_compare_and_swap_witness:
  "provisioningOperations sampleStore ''a'' = Some (sampleProvisioning ''a'' 3 10 Succeeded [])
  \<and> UpdateProvisioningOperation sampleStore (sampleProvisioning ''a'' 2 77 Failed [])
      = (sampleStore, Inl Conflict)
  \<and> snd (UpdateProvisioningOperation sampleStore (sampleProvisioning ''a'' 3 77 Failed []))
      = Inr (sampleProvisioning ''a'' 4 77 Failed [])
  \<and> provisioningOperations
        (fst (UpdateProvisioningOperation sampleStore (sampleProvisioning ''a'' 3 77 Failed []))) ''a''
      = Some (sampleProvisioning ''a'' 4 77 Failed [])
  \<and> map_option (\<lambda>stored. sint (Version stored))
        (provisioningOperations
           (fst (UpdateProvisioningOperation sampleStore (sampleProvisioning ''a'' 3 77 Failed []))) ''a'')
      = Some 4
  \<and> snd (UpdateProvisioningOperation
            (fst (UpdateProvisioningOperation sampleStore (sampleProvisioning ''a'' 3 77 Failed [])))
            (sampleProvisioning ''a'' 3 88 InProgress []))
      = Inl Conflict
  \<and> deprovisioningOperations sampleStore ''a'' = Some (sampleDeprovisioning ''a'' 3 40 Failed [])
  \<and> UpdateDeprovisioningOperation sampleStore (sampleDeprovisioning ''a'' 2 77 Failed [])
      = (sampleStore, Inl Conflict)
  \<and> snd (UpdateDeprovisioningOperation sampleStore (sampleDeprovisioning ''a'' 3 77 Failed []))
      = Inr (sampleDeprovisioning ''a'' 4 77 Failed [])
  \<and> deprovisioningOperations
        (fst (UpdateDeprovisioningOperation sampleStore (sampleDeprovisioning ''a'' 3 77 Failed []))) ''a''
      = Some (sampleDeprovisioning ''a'' 4 77 Failed [])
  \<and> map_option (\<lambda>stored. sint (Version stored))
        (deprovisioningOperations
           (fst (UpdateDeprovisioningOperation sampleStore (sampleDeprovisioning ''a'' 3 77 Failed []))) ''a'')
      = Some 4
  \<and> snd (UpdateDeprovisioningOperation
            (fst (UpdateDeprovisioningOperation sampleStore (sampleDeprovisioning ''a'' 3 77 Failed [])))
            (sampleDeprovisioning ''a'' 3 88 InProgress []))
      = Inl Conflict
  \<and> upgradeKymaOperations sampleStore ''a'' = Some (sampleUpgradeKyma ''a'' 3 60 Succeeded ''o2'')
  \<and> UpdateUpgradeKymaOperation sampleStore (sampleUpgradeKyma ''a'' 2 77 Failed [])
      = (sampleStore, Inl Conflict)
  \<and> snd (UpdateUpgradeKymaOperation sampleStore (sampleUpgradeKyma ''a'' 3 77 Failed []))
      = Inr (sampleUpgradeKyma ''a'' 4 77 Failed [])
  \<and> upgradeKymaOperations
        (fst (UpdateUpgradeKymaOperation sampleStore (sampleUpgradeKyma ''a'' 3 77 Failed []))) ''a''
      = Some (sampleUpgradeKyma ''a'' 4 77 Failed [])
  \<and> map_option (\<lambda>stored. sint (Version stored))
        (upgradeKymaOperations
           (fst (UpdateUpgradeKymaOperation sampleStore (sampleUpgradeKyma ''a'' 3 77 Failed []))) ''a'')
      = Some 4
  \<and> snd (UpdateUpgradeKymaOperation
            (fst (UpdateUpgradeKymaOperation sampleStore (sampleUpgradeKyma ''a'' 3 77 Failed [])))
            (sampleUpgradeKyma ''a'' 3 88 InProgress []))
      = Inl Conflict"
  using Update_compare_and_swap [where s = sampleStore
      and pOp = "sampleProvisioning ''a'' 2 77 Failed []"
      and pOld = "sampleProvisioning ''a'' 3 10 Succeeded []"
      and pOp' = "sampleProvisioning ''a'' 3 88 InProgress []"
      and dOp = "sampleDeprovisioning ''a'' 2 77 Failed []"
      and dOld = "sampleDeprovisioning ''a'' 3 40 Failed []"
      and dOp' = "sampleDeprovisioning ''a'' 3 88 InProgress []"
      and uOp = "sampleUpgradeKyma ''a'' 2 77 Failed []"
      and uOld = "sampleUpgradeKyma ''a'' 3 60 Succeeded ''o2''"
      and uOp' = "sampleUpgradeKyma ''a'' 3 88 InProgress []"]
    Update_compare_and_swap [where s = sampleStore
      and pOp = "sampleProvisioning ''a'' 3 77 Failed []"
      and pOld = "sampleProvisioning ''a'' 3 10 Succeeded []"
      and pOp' = "sampleProvisioning ''a'' 3 88 InProgress []"
      and dOp = "sampleDeprovisioning ''a'' 3 77 Failed []"
      and dOld = "sampleDeprovisioning ''a'' 3 40 Failed []"
      and dOp' = "sampleDeprovisioning ''a'' 3 88 InProgress []"
      and uOp = "sampleUpgradeKyma ''a'' 3 77 Failed []"
      and uOld = "sampleUpgradeKyma ''a'' 3 60 Succeeded ''o2''"
      and uOp' = "sampleUpgradeKyma ''a'' 3 88 InProgress []"]
  by (simp add: sampleStore_def sampleProvisioning_def sampleDeprovisioning_def
      sampleUpgradeKyma_def UpdateProvisioningOperation_def UpdateDeprovisioningOperation_def
      UpdateUpgradeKymaOperation_def Let_def)

subsection \<open>Insert refuses an id that is taken\<close>

lemma InsertProvisioningOperation_exists:
  "provisioningOperations s (ID op) = Some old \<Longrightarrow> InsertProvisioningOperation s op = (s, Some AlreadyExists)"
  by (simp add: InsertProvisioningOperation_def)

lemma InsertProvisioningOperation_fresh:
  "provisioningOperations s (ID op) = None
     \<Longrightarrow> InsertProvisioningOperation s op = (s\<lparr>provisioningOperations := (provisioningOperations s)(ID op \<mapsto> op)\<rparr>, None)"
  by (simp add: InsertProvisioningOperation_def)

lemma InsertDeprovisioningOperation_exists:
  "deprovisioningOperations s (ID op) = Some old \<Longrightarrow> InsertDeprovisioningOperation s op = (s, Some AlreadyExists)"
  by (simp add: InsertDeprovisioningOperation_def)

lemma InsertDeprovisioningOperation_fresh:
  "deprovisioningOperations s (ID op) = None
     \<Longrightarrow> InsertDeprovisioningOperation s op = (s\<lparr>deprovisioningOperations := (deprovisioningOperations s)(ID op \<mapsto> op)\<rparr>, None)"
  by (simp add: InsertDeprovisioningOperation_def)

lemma InsertUpgradeKymaOperation_exists:
  "upgradeKymaOperations s (ID op) = Some old \<Longrightarrow> InsertUpgradeKymaOperation s op = (s, Some AlreadyExists)"
  by (simp add: InsertUpgradeKymaOperation_def)

lemma InsertUpgradeKymaOperation_fresh:
  "upgradeKymaOperations s (ID op) = None
     \<Longrightarrow> InsertUpgradeKymaOperation s op = (s\<lparr>upgradeKymaOperations := (upgradeKymaOperations s)(ID op \<mapsto> op)\<rparr>, None)"
  by (simp add: InsertUpgradeKymaOperation_def)

text \<open>
  Claim C5. For each kind: when the kind's map already has an entry under the id of the
  given operation, Insert returns \<open>AlreadyExists\<close> and the store is as before, so the
  stored entity is unchanged; when it has none, Insert returns no error, the kind's getter
  by id returns the given operation from the new store, and every other entry of the map
  is as before.
\<close>

theorem Insert_already_exists_or_stored:
  "(provisioningOperations s (ID pOp) = Some pOld \<longrightarrow>
      InsertProvisioningOperation s pOp = (s, Some AlreadyExists)
      \<and> GetProvisioningOperationByID (fst (InsertProvisioningOperation s pOp)) (ID pOp) = Inr pOld)
  \<and> (provisioningOperations s (ID pOp) = None \<longrightarrow>
      snd (InsertProvisioningOperation s pOp) = None
      \<and> GetProvisioningOperationByID (fst (InsertProvisioningOperation s pOp)) (ID pOp) = Inr pOp
      \<and> (\<forall>k. k \<noteq> ID pOp \<longrightarrow>
            provisioningOperations (fst (InsertProvisioningOperation s pOp)) k = provisioningOperations s k))
  \<and> (deprovisioningOperations s (ID dOp) = Some dOld \<longrightarrow>
      InsertDeprovisioningOperation s dOp = (s, Some AlreadyExists)
      \<and> GetDeprovisioningOperationByID (fst (InsertDeprovisioningOperation s dOp)) (ID dOp) = Inr dOld)
  \<and> (deprovisioningOperations s (ID dOp) = None \<longrightarrow>
      snd (InsertDeprovisioningOperation s dOp) = None
      \<and> GetDeprovisioningOperationByID (fst (InsertDeprovisioningOperation s dOp)) (ID dOp) = Inr dOp
      \<and> (\<forall>k. k \<noteq> ID dOp \<longrightarrow>
            deprovisioningOperations (fst (InsertDeprovisioningOperation s dOp)) k = deprovisioningOperations s k))
  \<and> (upgradeKymaOperations s (ID uOp) = Some uOld \<longrightarrow>
      InsertUpgradeKymaOperation s uOp = (s, Some AlreadyExists)
      \<and> GetUpgradeKymaOperationByID (fst (InsertUpgradeKymaOperation s uOp)) (ID uOp) = Inr uOld)
  \<and> (upgradeKymaOperations s (ID uOp) = None \<longrightarrow>
      snd (InsertUpgradeKymaOperation s uOp) = None
      \<and> GetUpgradeKymaOperationByID (fst (InsertUpgradeKymaOperation s uOp)) (ID uOp) = Inr uOp
      \<and> (\<forall>k. k \<noteq> ID uOp \<longrightarrow>
            upgradeKymaOperations (fst (InsertUpgradeKymaOperation s uOp)) k = upgradeKymaOperations s k))"
  by (simp add: InsertProvisioningOperation_exists InsertProvisioningOperation_fresh
      InsertDeprovisioningOperation_exists InsertDeprovisioningOperation_fresh
      InsertUpgradeKymaOperation_exists InsertUpgradeKymaOperation_fresh
      GetProvisioningOperationByID_def GetDeprovisioningOperationByID_def
      GetUpgradeKymaOperationByID_def)

theorem Insert_already_exists_or_stored_witness:
  "provisioningOperations sampleStore ''a'' = Some (sampleProvisioning ''a'' 3 10 Succeeded [])
  \<and> InsertProvisioningOperation sampleStore (sampleProvisioning ''a'' 0 77 Failed [])
      = (sampleStore, Some AlreadyExists)
  \<and> provisioningOperations sampleStore ''z'' = None
  \<and> snd (InsertProvisioningOperation sampleStore (sampleProvisioning ''z'' 0 77 Failed [])) = None
  \<and> GetProvisioningOperationByID
        (fst (InsertProvisioningOperation sampleStore (sampleProvisioning ''z'' 0 77 Failed []))) ''z''
      = Inr (sampleProvisioning ''z'' 0 77 Failed [])
  \<and> provisioningOperations (fst (InsertProvisioningOperation sampleStore (sampleProvisioning ''z'' 0 77 Failed []))) ''a''
      = Some (sampleProvisioning ''a'' 3 10 Succeeded [])
  \<and> deprovisioningOperations sampleStore ''a'' = Some (sampleDeprovisioning ''a'' 3 40 Failed [])
  \<and> InsertDeprovisioningOperation sampleStore (sampleDeprovisioning ''a'' 0 77 Failed [])
      = (sampleStore, Some AlreadyExists)
  \<and> deprovisioningOperations sampleStore ''z'' = None
  \<and> snd (InsertDeprovisioningOperation sampleStore (sampleDeprovisioning ''z'' 0 77 Failed [])) = None
  \<and> GetDeprovisioningOperationByID
        (fst (InsertDeprovisioningOperation sampleStore (sampleDeprovisioning ''z'' 0 77 Failed []))) ''z''
      = Inr (sampleDeprovisioning ''z'' 0 77 Failed [])
  \<and> deprovisioningOperations (fst (InsertDeprovisioningOperation sampleStore (sampleDeprovisioning ''z'' 0 77 Failed []))) ''a''
      = Some (sampleDeprovisioning ''a'' 3 40 Failed [])
  \<and> upgradeKymaOperations sampleStore ''a'' = Some (sampleUpgradeKyma ''a'' 3 60 Succeeded ''o2'')
  \<and> InsertUpgradeKymaOperation sampleStore (sampleUpgradeKyma ''a'' 0 77 Failed [])
      = (sampleStore, Some AlreadyExists)
  \<and> upgradeKymaOperations sampleStore ''z'' = None
  \<and> snd (InsertUpgradeKymaOperation sampleStore (sampleUpgradeKyma ''z'' 0 77 Failed [])) = None
  \<and> GetUpgradeKymaOperationByID
        (fst (InsertUpgradeKymaOperation sampleStore (sampleUpgradeKyma ''z'' 0 77 Failed []))) ''z''
      = Inr (sampleUpgradeKyma ''z'' 0 77 Failed [])
  \<and> upgradeKymaOperations (fst (InsertUpgradeKymaOperation sampleStore (sampleUpgradeKyma ''z'' 0 77 Failed []))) ''a''
      = Some (sampleUpgradeKyma ''a'' 3 60 Succeeded ''o2'')"
  using Insert_already_exists_or_stored [where s = sampleStore and pOp = "sampleProvisioning ''a'' 0 77 Failed []"
      and pOld = "sampleProvisioning ''a'' 3 10 Succeeded []"
      and dOp = "sampleDeprovisioning ''a'' 0 77 Failed []"
      and dOld = "sampleDeprovisioning ''a'' 3 40 Failed []"
      and uOp = "sampleUpgradeKyma ''a'' 0 77 Failed []"
      and uOld = "sampleUpgradeKyma ''a'' 3 60 Succeeded ''o2''"]
    Insert_already_exists_or_stored [where s = sampleStore and pOp = "sampleProvisioning ''z'' 0 77 Failed []"
      and pOld = "sampleProvisioning ''a'' 3 10 Succeeded []"
      and dOp = "sampleDeprovisioning ''z'' 0 77 Failed []"
      and dOld = "sampleDeprovisioning ''a'' 3 40 Failed []"
      and uOp = "sampleUpgradeKyma ''z'' 0 77 Failed []"
      and uOld = "sampleUpgradeKyma ''a'' 3 60 Succeeded ''o2''"]
  by (simp add: sampleStore_def sampleProvisioning_def sampleDeprovisioning_def
      sampleUpgradeKyma_def InsertProvisioningOperation_def InsertDeprovisioningOperation_def
      InsertUpgradeKymaOperation_def GetProvisioningOperationByID_def
      GetDeprovisioningOperationByID_def GetUpgradeKymaOperationByID_def)

subsection \<open>The kind-agnostic getter returns the last kind that has the id\<close>

text \<open>
  Claim C4. \<open>GetOperationByID\<close> looks the id up in the three maps. It returns the
  upgrade-Kyma operation when there is one; otherwise the deprovisioning operation when
  there is one; otherwise the provisioning operation when there is one; and \<open>NotFound\<close>
  when no kind has the id. What it returns is the embedded \<open>Operation\<close>.
\<close>

theorem GetOperationByID_last_kind_wins:
  "(upgradeKymaOperations s operationID = Some u \<longrightarrow>
      GetOperationByID s operationID = Inr (Operation.truncate u))
  \<and> (upgradeKymaOperations s operationID = None
      \<and> deprovisioningOperations s operationID = Some d \<longrightarrow>
      GetOperationByID s operationID = Inr (Operation.truncate d))
  \<and> (upgradeKymaOperations s operationID = None
      \<and> deprovisioningOperations s operationID = None
      \<and> provisioningOperations s operationID = Some p \<longrightarrow>
      GetOperationByID s operationID = Inr (Operation.truncate p))
  \<and> (upgradeKymaOperations s operationID = None
      \<and> deprovisioningOperations s operationID = None
      \<and> provisioningOperations s operationID = None \<longrightarrow>
      GetOperationByID s operationID = Inl NotFound)"
  by (simp add: GetOperationByID_def split: option.splits)

theorem GetOperationByID_last_kind_wins_witness:
  "upgradeKymaOperations sampleStore ''a'' = Some (sampleUpgradeKyma ''a'' 3 60 Succeeded ''o2'')
  \<and> deprovisioningOperations sampleStore ''a'' \<noteq> None
  \<and> provisioningOperations sampleStore ''a'' \<noteq> None
  \<and> GetOperationByID sampleStore ''a''
      = Inr (Operation.truncate (sampleUpgradeKyma ''a'' 3 60 Succeeded ''o2''))
  \<and> upgradeKymaOperations sampleStore ''b'' = None
  \<and> deprovisioningOperations sampleStore ''b''
      = Some (sampleDeprovisioning ''b'' 0 50 InProgress [])
  \<and> provisioningOperations sampleStore ''b'' \<noteq> None
  \<and> GetOperationByID sampleStore ''b''
      = Inr (Operation.truncate (sampleDeprovisioning ''b'' 0 50 InProgress []))
  \<and> upgradeKymaOperations sampleStore ''c'' = None
  \<and> deprovisioningOperations sampleStore ''c'' = None
  \<and> provisioningOperations sampleStore ''c''
      = Some (sampleProvisioning ''c'' 0 30 InProgress [])
  \<and> GetOperationByID sampleStore ''c''
      = Inr (Operation.truncate (sampleProvisioning ''c'' 0 30 InProgress []))
  \<and> upgradeKymaOperations sampleStore ''z'' = None
  \<and> deprovisioningOperations sampleStore ''z'' = None
  \<and> provisioningOperations sampleStore ''z'' = None
  \<and> GetOperationByID sampleStore ''z'' = Inl NotFound"
  using
    GetOperationByID_last_kind_wins [where s = sampleStore and operationID = "''a''"
      and u = "sampleUpgradeKyma ''a'' 3 60 Succeeded ''o2''"]
    GetOperationByID_last_kind_wins [where s = sampleStore and operationID = "''b''"
      and d = "sampleDeprovisioning ''b'' 0 50 InProgress []"]
    GetOperationByID_last_kind_wins [where s = sampleStore and operationID = "''c''"
      and p = "sampleProvisioning ''c'' 0 30 InProgress []"]
    GetOperationByID_last_kind_wins [where s = sampleStore and operationID = "''z''"]
  by (simp add: sampleStore_def)

subsection \<open>Every store the driver can reach is keyed by id\<close>

lemma storeKeyedByID_NewOperation: "storeKeyedByID NewOperation"
  by (simp add: storeKeyedByID_def keyedByID_def NewOperation_def)

lemma keyedByID_upd: "keyedByID m \<Longrightarrow> ID v = k \<Longrightarrow> keyedByID (m(k \<mapsto> v))"
  by (simp add: keyedByID_def)

lemma storeKeyedByID_InsertProvisioningOperation:
  "storeKeyedByID s \<Longrightarrow> storeKeyedByID (fst (InsertProvisioningOperation s op))"
  by (auto simp add: storeKeyedByID_def InsertProvisioningOperation_def Let_def keyedByID_upd
      split: option.splits)

lemma storeKeyedByID_UpdateProvisioningOperation:
  "storeKeyedByID s \<Longrightarrow> storeKeyedByID (fst (UpdateProvisioningOperation s op))"
  by (auto simp add: storeKeyedByID_def UpdateProvisioningOperation_def Let_def keyedByID_upd
      split: option.splits)

lemma storeKeyedByID_InsertDeprovisioningOperation:
  "storeKeyedByID s \<Longrightarrow> storeKeyedByID (fst (InsertDeprovisioningOperation s op))"
  by (auto simp add: storeKeyedByID_def InsertDeprovisioningOperation_def Let_def keyedByID_upd
      split: option.splits)

lemma storeKeyedByID_UpdateDeprovisioningOperation:
  "storeKeyedByID s \<Longrightarrow> storeKeyedByID (fst (UpdateDeprovisioningOperation s op))"
  by (auto simp add: storeKeyedByID_def UpdateDeprovisioningOperation_def Let_def keyedByID_upd
      split: option.splits)

lemma storeKeyedByID_InsertUpgradeKymaOperation:
  "storeKeyedByID s \<Longrightarrow> storeKeyedByID (fst (InsertUpgradeKymaOperation s op))"
  by (auto simp add: storeKeyedByID_def InsertUpgradeKymaOperation_def Let_def keyedByID_upd
      split: option.splits)

lemma storeKeyedByID_UpdateUpgradeKymaOperation:
  "storeKeyedByID s \<Longrightarrow> storeKeyedByID (fst (UpdateUpgradeKymaOperation s op))"
  by (auto simp add: storeKeyedByID_def UpdateUpgradeKymaOperation_def Let_def keyedByID_upd
      split: option.splits)

text \<open>The two sample stores are built from the empty one by inserts.\<close>

lemma upgradeStore_reachable:
  "upgradeStore =
     fst (InsertUpgradeKymaOperation
            (fst (InsertUpgradeKymaOperation NewOperation
                    (sampleUpgradeKyma ''u1'' 0 1 Succeeded ''o1'')))
            (sampleUpgradeKyma ''u2'' 0 2 Succeeded ''o2''))"
  by (simp add: upgradeStore_def NewOperation_def InsertUpgradeKymaOperation_def
      sampleUpgradeKyma_def Let_def)

lemma sampleStore_reachable:
  "sampleStore =
     fst (InsertUpgradeKymaOperation
       (fst (InsertDeprovisioningOperation
         (fst (InsertDeprovisioningOperation
           (fst (InsertProvisioningOperation
             (fst (InsertProvisioningOperation
               (fst (InsertProvisioningOperation NewOperation
                       (sampleProvisioning ''a'' 3 10 Succeeded [])))
               (sampleProvisioning ''b'' 0 20 Succeeded [])))
             (sampleProvisioning ''c'' 0 30 InProgress [])))
           (sampleDeprovisioning ''a'' 3 40 Failed [])))
         (sampleDeprovisioning ''b'' 0 50 InProgress [])))
       (sampleUpgradeKyma ''a'' 3 60 Succeeded ''o2''))"
  by (simp add: sampleStore_def NewOperation_def InsertUpgradeKymaOperation_def
      InsertProvisioningOperation_def InsertDeprovisioningOperation_def
      sampleUpgradeKyma_def sampleProvisioning_def sampleDeprovisioning_def Let_def)

subsection \<open>Operations for a list of ids come grouped by kind\<close>

lemma ID_truncate: "ID (Operation.truncate v) = ID v"
  by (simp add: Operation.truncate_def)

lemma appendMatching_filter:
  "appendMatching ops vs opID =
     ops @ filter (\<lambda>o'. ID o' = opID) (map Operation.truncate vs)"
  by (induction vs arbitrary: ops) simp_all

lemma rangeValues_matching:
  assumes "keyedByID m" "distinct ks" "set ks \<subseteq> dom m"
  shows "filter (\<lambda>o'. ID o' = opID) (map Operation.truncate (rangeValues m ks)) =
           (if opID \<in> set ks then [Operation.truncate (the (m opID))] else [])"
  using assms
proof (induction ks)
  case Nil
  then show ?case by (simp add: rangeValues_def)
next
  case (Cons k ks)
  from Cons.prems obtain v where v: "m k = Some v" by auto
  with Cons.prems have idv: "ID v = k" by (simp add: keyedByID_def)
  have ih: "filter (\<lambda>o'. ID o' = opID) (map Operation.truncate (rangeValues m ks)) =
           (if opID \<in> set ks then [Operation.truncate (the (m opID))] else [])"
    using Cons by simp
  have rv: "rangeValues m (k # ks) = v # rangeValues m ks"
    using v by (simp add: rangeValues_def)
  show ?case
  proof (cases "k = opID")
    case True
    then have "opID \<notin> set ks" using Cons.prems by auto
    then show ?thesis using True ih rv v idv by (simp add: ID_truncate)
  next
    case False
    then show ?thesis using ih rv v idv by (auto simp add: ID_truncate)
  qed
qed

lemma appendMatching_keyed:
  assumes "keyedByID m" "rangeOrder m ks"
  shows "appendMatching ops (rangeValues m ks) opID =
           ops @ (case m opID of None \<Rightarrow> [] | Some v \<Rightarrow> [Operation.truncate v])"
proof -
  have "distinct ks" "set ks \<subseteq> dom m" "set ks = dom m"
    using assms(2) by (simp_all add: rangeOrder_def)
  then show ?thesis
    using rangeValues_matching [OF assms(1), of ks opID]
    by (auto simp add: appendMatching_filter split: option.splits)
qed

lemma collectForIDs_keyed:
  assumes "keyedByID m" "\<forall>n. rangeOrder m (ord n)"
  shows "collectForIDs m ord n ops opIdList =
           ops @ List.map_filter (\<lambda>i. map_option Operation.truncate (m i)) opIdList"
  using assms
proof (induction opIdList arbitrary: n ops)
  case Nil
  then show ?case by simp
next
  case (Cons opID rest)
  then show ?case
    by (simp add: appendMatching_keyed split: option.splits)
qed

lemma map_filter_empty_iff:
  "List.map_filter f xs = [] \<longleftrightarrow> (\<forall>x \<in> set xs. f x = None)"
  by (induction xs) (auto split: option.splits)

text \<open>
  Claim C10. In a store keyed by id, whatever the orders in which the maps are ranged
  over: if no id of the list is stored in any kind, \<open>GetOperationsForIDs\<close> returns
  \<open>NotFound\<close> (also for the empty list) and not an empty list; otherwise it returns
  first the upgrade-Kyma operations with an id of the list, then the provisioning ones,
  then the deprovisioning ones, each group in the order of the id list. The witness
  asks for \<open>c\<close> before \<open>a\<close> and gets the upgrade-Kyma operation \<open>a\<close> first.
\<close>

theorem GetOperationsForIDs_grouped_by_kind:
  assumes "storeKeyedByID s"
    and "\<forall>n. rangeOrder (upgradeKymaOperations s) (ordU n)"
    and "\<forall>n. rangeOrder (provisioningOperations s) (ordP n)"
    and "\<forall>n. rangeOrder (deprovisioningOperations s) (ordD n)"
  shows "((\<forall>i \<in> set opIdList.
             upgradeKymaOperations s i = None
             \<and> provisioningOperations s i = None
             \<and> deprovisioningOperations s i = None) \<longrightarrow>
          GetOperationsForIDs s ordU ordP ordD opIdList = Inl NotFound)
       \<and> (\<not> (\<forall>i \<in> set opIdList.
               upgradeKymaOperations s i = None
               \<and> provisioningOperations s i = None
               \<and> deprovisioningOperations s i = None) \<longrightarrow>
          GetOperationsForIDs s ordU ordP ordD opIdList =
            Inr (List.map_filter
                   (\<lambda>i. map_option Operation.truncate (upgradeKymaOperations s i)) opIdList
                 @ List.map_filter
                     (\<lambda>i. map_option Operation.truncate (provisioningOperations s i)) opIdList
                 @ List.map_filter
                     (\<lambda>i. map_option Operation.truncate (deprovisioningOperations s i))
                     opIdList))"
proof -
  let ?U = "List.map_filter
              (\<lambda>i. map_option Operation.truncate (upgradeKymaOperations s i)) opIdList"
  let ?P = "List.map_filter
              (\<lambda>i. map_option Operation.truncate (provisioningOperations s i)) opIdList"
  let ?D = "List.map_filter
              (\<lambda>i. map_option Operation.truncate (deprovisioningOperations s i)) opIdList"
  have k: "keyedByID (upgradeKymaOperations s)" "keyedByID (provisioningOperations s)"
    "keyedByID (deprovisioningOperations s)"
    using assms(1) by (simp_all add: storeKeyedByID_def)
  have r: "GetOperationsForIDs s ordU ordP ordD opIdList =
             (if ?U @ ?P @ ?D = [] then Inl NotFound else Inr (?U @ ?P @ ?D))"
    by (simp add: GetOperationsForIDs_def Let_def
        collectForIDs_keyed [OF k(1) assms(2)] collectForIDs_keyed [OF k(2) assms(3)]
        collectForIDs_keyed [OF k(3) assms(4)])
  have e: "?U @ ?P @ ?D = [] \<longleftrightarrow>
             (\<forall>i \<in> set opIdList.
                upgradeKymaOperations s i = None
                \<and> provisioningOperations s i = None
                \<and> deprovisioningOperations s i = None)"
    by (auto simp add: map_filter_empty_iff)
  show ?thesis
    unfolding r using e by simp
qed

theorem GetOperationsForIDs_grouped_by_kind_witness:
  "storeKeyedByID sampleStore
  \<and> (\<forall>n. rangeOrder (upgradeKymaOperations sampleStore) [''a''])
  \<and> (\<forall>n. rangeOrder (provisioningOperations sampleStore) [''c'', ''a'', ''b''])
  \<and> (\<forall>n. rangeOrder (deprovisioningOperations sampleStore) [''b'', ''a''])
  \<and> GetOperationsForIDs sampleStore (\<lambda>n. [''a'']) (\<lambda>n. [''c'', ''a'', ''b''])
        (\<lambda>n. [''b'', ''a'']) [''z''] = Inl NotFound
  \<and> GetOperationsForIDs sampleStore (\<lambda>n. [''a'']) (\<lambda>n. [''c'', ''a'', ''b''])
        (\<lambda>n. [''b'', ''a'']) [] = Inl NotFound
  \<and> GetOperationsForIDs sampleStore (\<lambda>n. [''a'']) (\<lambda>n. [''c'', ''a'', ''b''])
        (\<lambda>n. [''b'', ''a'']) [''c'', ''a'', ''z''] =
      Inr [Operation.truncate (sampleUpgradeKyma ''a'' 3 60 Succeeded ''o2''),
           Operation.truncate (sampleProvisioning ''c'' 0 30 InProgress []),
           Operation.truncate (sampleProvisioning ''a'' 3 10 Succeeded []),
           Operation.truncate (sampleDeprovisioning ''a'' 3 40 Failed [])]"
proof -
  have k: "storeKeyedByID sampleStore"
    by (simp add: storeKeyedByID_def keyedByID_def sampleStore_def sampleProvisioning_def
        sampleDeprovisioning_def sampleUpgradeKyma_def)
  have u: "\<forall>n :: nat. rangeOrder (upgradeKymaOperations sampleStore) [''a'']"
    by (auto simp add: rangeOrder_def sampleStore_def)
  have p: "\<forall>n :: nat. rangeOrder (provisioningOperations sampleStore) [''c'', ''a'', ''b'']"
    by (auto simp add: rangeOrder_def sampleStore_def)
  have d: "\<forall>n :: nat. rangeOrder (deprovisioningOperations sampleStore) [''b'', ''a'']"
    by (auto simp add: rangeOrder_def sampleStore_def)
  show ?thesis
    using k u p d
      GetOperationsForIDs_grouped_by_kind [OF k u p d, of "[''z'']"]
      GetOperationsForIDs_grouped_by_kind [OF k u p d, of "[]"]
      GetOperationsForIDs_grouped_by_kind [OF k u p d, of "[''c'', ''a'', ''z'']"]
    by (simp add: sampleStore_def)
qed

subsection \<open>Listing by instance id\<close>

lemma foldl_append_single: "foldl (\<lambda>l v. l @ [v]) acc vs = acc @ vs"
  by (induction vs arbitrary: acc) simp_all

lemma getUpgradeSortedByCreatedAt_sort:
  "getUpgradeSortedByCreatedAt m ks = sort_key CreatedAt (rangeValues m ks)"
  by (simp add: getUpgradeSortedByCreatedAt_def foldl_append_single)

lemma rangeValues_map:
  "set ks \<subseteq> dom m \<Longrightarrow> rangeValues m ks = map (\<lambda>k. the (m k)) ks"
  by (induction ks) (auto simp add: rangeValues_def)

lemma mset_rangeValues:
  assumes "rangeOrder m ks"
  shows "mset (rangeValues m ks) = image_mset (\<lambda>k. the (m k)) (mset_set (dom m))"
proof -
  have d: "distinct ks" and e: "set ks = dom m"
    using assms by (simp_all add: rangeOrder_def)
  have "mset_set (dom m) = mset ks"
    using d e mset_set_set [of ks] by simp
  then show ?thesis
    using e by (simp add: rangeValues_map)
qed

text \<open>
  Claim C9. Whatever the two instance ids given (and whatever the order of the first,
  discarded, \<open>range\<close>), \<open>ListUpgradeKymaOperationsByInstanceID\<close> returns the same list,
  without an error: it is sorted by \<open>CreatedAt\<close> ascending and holds every stored
  upgrade-Kyma operation, the one of each key once, with no paging. The instance id has
  no effect on it.
\<close>

theorem ListUpgradeKymaOperationsByInstanceID_ignores_instanceID:
  assumes "rangeOrder (upgradeKymaOperations s) ks2"
  shows "\<exists>ops. ListUpgradeKymaOperationsByInstanceID s ks1 ks2 instanceID = Inr ops
           \<and> ListUpgradeKymaOperationsByInstanceID s ks1' ks2 instanceID' = Inr ops
           \<and> sorted (map CreatedAt ops)
           \<and> mset ops = image_mset (\<lambda>k. the (upgradeKymaOperations s k))
                           (mset_set (dom (upgradeKymaOperations s)))"
  using mset_rangeValues [OF assms]
  by (simp add: ListUpgradeKymaOperationsByInstanceID_def Let_def
      getUpgradeSortedByCreatedAt_sort)

theorem ListUpgradeKymaOperationsByInstanceID_ignores_instanceID_witness:
  "rangeOrder (upgradeKymaOperations upgradeStore) [''u2'', ''u1'']
   \<and> ListUpgradeKymaOperationsByInstanceID upgradeStore [''u1'', ''u2''] [''u2'', ''u1'']
        ''inst''
      = Inr [sampleUpgradeKyma ''u1'' 0 1 Succeeded ''o1'',
             sampleUpgradeKyma ''u2'' 0 2 Succeeded ''o2'']
   \<and> ListUpgradeKymaOperationsByInstanceID upgradeStore [''u2'', ''u1''] [''u2'', ''u1'']
        ''other''
      = Inr [sampleUpgradeKyma ''u1'' 0 1 Succeeded ''o1'',
             sampleUpgradeKyma ''u2'' 0 2 Succeeded ''o2'']"
proof -
  have r: "rangeOrder (upgradeKymaOperations upgradeStore) [''u2'', ''u1'']"
    by (auto simp add: rangeOrder_def upgradeStore_def)
  show ?thesis
    using r ListUpgradeKymaOperationsByInstanceID_ignores_instanceID
              [OF r, of "[''u1'', ''u2'']" "''inst''" "[''u2'', ''u1'']" "''other''"]
    by (simp add: ListUpgradeKymaOperationsByInstanceID_def Let_def
        getUpgradeSortedByCreatedAt_def rangeValues_def upgradeStore_def sampleUpgradeKyma_def)
qed

subsection \<open>Statistics for an orchestration\<close>

lemma upgradeStore_rangeOrder:
  "rangeOrder (upgradeKymaOperations upgradeStore) [''u1'', ''u2'']"
  by (auto simp add: rangeOrder_def upgradeStore_def)

text \<open>
  Claim C3 says that \<open>GetOperationStatsForOrchestration\<close> counts, per state, only the
  upgrade-Kyma operations of the given orchestration. The method never reads its
  argument: in the store with the two succeeded operations \<open>u1\<close> of orchestration \<open>o1\<close>
  and \<open>u2\<close> of orchestration \<open>o2\<close>, the statistics for \<open>o1\<close> count both.
\<close>

theorem GetOperationStatsForOrchestration_counts_every_orchestration:
  "rangeOrder (upgradeKymaOperations upgradeStore) [''u1'', ''u2'']
   \<and> GetOperationStatsForOrchestration upgradeStore [''u1'', ''u2''] ''o1'' =
       Inr [InProgress \<mapsto> 0, Succeeded \<mapsto> 2, Failed \<mapsto> 0]"
proof -
  have "GetOperationStatsForOrchestration upgradeStore [''u1'', ''u2''] ''o1'' =
          Inr [InProgress \<mapsto> 0, Succeeded \<mapsto> 2, Failed \<mapsto> 0]"
    by (auto simp add: GetOperationStatsForOrchestration_def Let_def rangeValues_def
        upgradeStore_def sampleUpgradeKyma_def InProgress_def Succeeded_def Failed_def
        fun_eq_iff)
  with upgradeStore_rangeOrder show ?thesis by (rule conjI)
qed

subsection \<open>Listing by orchestration id\<close>

text \<open>
  Claim C2 says that \<open>ListUpgradeKymaOperationsByOrchestrationID\<close> returns the requested
  page of the operations of the given orchestration, the number of items in the page and
  the number of operations of the orchestration. The method drops the list it filtered,
  pages over all upgrade-Kyma operations, reads the map under each operation's
  \<open>OrchestrationID\<close> instead of its id, and reports the size of the whole map: in the store
  with \<open>u1\<close> of orchestration \<open>o1\<close> and \<open>u2\<close> of orchestration \<open>o2\<close>, the first page
  of size 10 for \<open>o1\<close> is two zero-valued operations, with the counts 2 and 2, where the
  claim has the one operation \<open>u1\<close> and the counts 1 and 1.
\<close>

theorem ListUpgradeKymaOperationsByOrchestrationID_first_page:
  "rangeOrder (upgradeKymaOperations upgradeStore) [''u1'', ''u2'']
   \<and> ListUpgradeKymaOperationsByOrchestrationID ConvertPageAndPageSizeToOffset
         zeroUpgradeKyma upgradeStore [''u1'', ''u2''] [''u1'', ''u2''] ''o1'' 10 1 =
       Inr ([zeroUpgradeKyma, zeroUpgradeKyma], 2, 2)"
proof -
  have "ListUpgradeKymaOperationsByOrchestrationID ConvertPageAndPageSizeToOffset
          zeroUpgradeKyma upgradeStore [''u1'', ''u2''] [''u1'', ''u2''] ''o1'' 10 1 =
        Inr ([zeroUpgradeKyma, zeroUpgradeKyma], 2, 2)"
    by (simp add: ListUpgradeKymaOperationsByOrchestrationID_def Let_def rangeValues_def
        getUpgradeSortedByCreatedAt_def ConvertPageAndPageSizeToOffset_def
        upgradeStore_def sampleUpgradeKyma_def pageLoop.simps wrap64_def)
  with upgradeStore_rangeOrder show ?thesis by (rule conjI)
qed

text \<open>
  Claim C8 says that for \<open>page \<ge> 1\<close> and \<open>pageSize \<ge> 0\<close> the paging loop only reads
  indices below the length of the sorted list. The loop runs while
  \<open>i < len(sortedOperations) + offset\<close>: in the store with two upgrade-Kyma operations,
  page 2 of size 2 starts at offset 2 and reads \<open>sortedOperations[2]\<close>, which panics.
\<close>

theorem ListUpgradeKymaOperationsByOrchestrationID_second_page_panics:
  "rangeOrder (upgradeKymaOperations upgradeStore) [''u1'', ''u2'']
   \<and> ListUpgradeKymaOperationsByOrchestrationID ConvertPageAndPageSizeToOffset
         zeroUpgradeKyma upgradeStore [''u1'', ''u2''] [''u1'', ''u2''] ''o1'' 2 2 =
       Inl IndexOutOfRange"
proof -
  have "ListUpgradeKymaOperationsByOrchestrationID ConvertPageAndPageSizeToOffset
          zeroUpgradeKyma upgradeStore [''u1'', ''u2''] [''u1'', ''u2''] ''o1'' 2 2 =
        Inl IndexOutOfRange"
    by (simp add: ListUpgradeKymaOperationsByOrchestrationID_def Let_def rangeValues_def
        getUpgradeSortedByCreatedAt_def ConvertPageAndPageSizeToOffset_def
        upgradeStore_def sampleUpgradeKyma_def pageLoop.simps wrap64_def)
  with upgradeStore_rangeOrder show ?thesis by (rule conjI)
qed

section \<open>Properties of the runtime target options\<close>

lemma strings_Split_nonempty: "strings_Split s sep \<noteq> []"
  by (induction s) (auto split: list.splits)

lemma parseSelectors_no_panic:
  "parseSelectors include flagName selectors target \<noteq> Inl IndexPanic"
proof (induction selectors arbitrary: target)
  case Nil
  then show ?case by simp
next
  case (Cons selector rest)
  obtain k svRest where sv: "strings_Split selector CHR ''='' = k # svRest"
    using strings_Split_nonempty [of selector "CHR ''=''"]
    by (cases "strings_Split selector CHR ''=''") auto
  show ?case
    using Cons.IH
    by (auto simp add: sv checkRuntimeTargetSelector_def Let_def)
qed

lemma targetKeys_distinct:
  "TargetAll \<noteq> targetAccount" "TargetAll \<noteq> targetSubaccount"
  "TargetAll \<noteq> targetRegion" "TargetAll \<noteq> targetRuntimeID"
  by (simp_all add: TargetAll_def targetAccount_def targetSubaccount_def targetRegion_def
      targetRuntimeID_def)

lemma parseSelectors_step:
  assumes sv: "strings_Split selector CHR ''='' = k # svRest"
  shows "((k = TargetAll \<and> include)
            \<or> (k \<in> {targetAccount, targetSubaccount, targetRegion, targetRuntimeID}
                \<and> (\<exists>v vs. svRest = v # vs \<and> v \<noteq> []))
          \<longrightarrow> (\<exists>target'. parseSelectors include flagName (selector # rest) target =
                          parseSelectors include flagName rest target'))
       \<and> (\<not> ((k = TargetAll \<and> include)
            \<or> (k \<in> {targetAccount, targetSubaccount, targetRegion, targetRuntimeID}
                \<and> (\<exists>v vs. svRest = v # vs \<and> v \<noteq> [])))
          \<longrightarrow> (\<exists>e. parseSelectors include flagName (selector # rest) target = Inl e))"
proof (cases svRest)
  case Nil
  then show ?thesis
    using targetKeys_distinct by (auto simp add: sv checkRuntimeTargetSelector_def)
next
  case (Cons v vs)
  then show ?thesis
    using targetKeys_distinct by (auto simp add: sv checkRuntimeTargetSelector_def)
qed

lemma selector_condition:
  assumes sv: "strings_Split selector CHR ''='' = k # svRest"
  shows "((strings_Split selector CHR ''='' ! 0 = TargetAll \<and> include)
        \<or> (strings_Split selector CHR ''='' ! 0
              \<in> {targetAccount, targetSubaccount, targetRegion, targetRuntimeID}
            \<and> 1 < length (strings_Split selector CHR ''='')
            \<and> strings_Split selector CHR ''='' ! 1 \<noteq> []))
     \<longleftrightarrow> ((k = TargetAll \<and> include)
            \<or> (k \<in> {targetAccount, targetSubaccount, targetRegion, targetRuntimeID}
                \<and> (\<exists>v vs. svRest = v # vs \<and> v \<noteq> [])))"
  by (cases svRest) (auto simp add: sv)

lemma parseSelectors_accepts_iff:
  "(\<exists>t. parseSelectors include flagName selectors target = Inr t) \<longleftrightarrow>
     (\<forall>selector \<in> set selectors.
        (strings_Split selector CHR ''='' ! 0 = TargetAll \<and> include)
        \<or> (strings_Split selector CHR ''='' ! 0
              \<in> {targetAccount, targetSubaccount, targetRegion, targetRuntimeID}
            \<and> 1 < length (strings_Split selector CHR ''='')
            \<and> strings_Split selector CHR ''='' ! 1 \<noteq> []))"
proof (induction selectors arbitrary: target)
  case Nil
  then show ?case by simp
next
  case (Cons selector rest)
  obtain k svRest where sv: "strings_Split selector CHR ''='' = k # svRest"
    using strings_Split_nonempty [of selector "CHR ''=''"]
    by (cases "strings_Split selector CHR ''=''") auto
  let ?ok = "(k = TargetAll \<and> include)
            \<or> (k \<in> {targetAccount, targetSubaccount, targetRegion, targetRuntimeID}
                \<and> (\<exists>v vs. svRest = v # vs \<and> v \<noteq> []))"
  show ?case
  proof (cases ?ok)
    case True
    then obtain target' where
      "parseSelectors include flagName (selector # rest) target =
         parseSelectors include flagName rest target'"
      using parseSelectors_step [OF sv, of "include" flagName rest target] by blast
    then show ?thesis
      using True Cons.IH [of target'] selector_condition [OF sv, of "include"]
      by (simp del: parseSelectors.simps)
  next
    case False
    then obtain e where
      "parseSelectors include flagName (selector # rest) target = Inl e"
      using parseSelectors_step [OF sv, of "include" flagName rest target] by blast
    then show ?thesis
      using False selector_condition [OF sv, of "include"]
      by (simp del: parseSelectors.simps)
  qed
qed

text \<open>
  Claim C7. \<open>strings.Split\<close> never returns an empty slice, so \<open>sv[0]\<close> is always there.
  \<open>parseRuntimeTarget\<close> returns no error exactly when every comma-separated selector of
  the specifier is either the key \<open>all\<close> in an include position, or one of the keys
  \<open>account\<close>, \<open>subaccount\<close>, \<open>region\<close>, \<open>runtime-id\<close> with a non-empty value after
  the \<open>=\<close>. So \<open>all\<close> in an exclude specifier, a known key with a missing or empty
  value, and an unknown key each give an error, for include and exclude alike.
\<close>

theorem parseRuntimeTarget_accepts_iff:
  "snd (parseRuntimeTarget targetInput targets include) = None \<longleftrightarrow>
     (\<forall>selector \<in> set (strings_Split targetInput CHR '','').
        (strings_Split selector CHR ''='' ! 0 = TargetAll \<and> include)
        \<or> (strings_Split selector CHR ''='' ! 0
              \<in> {targetAccount, targetSubaccount, targetRegion, targetRuntimeID}
            \<and> 1 < length (strings_Split selector CHR ''='')
            \<and> strings_Split selector CHR ''='' ! 1 \<noteq> []))"
proof -
  have "snd (parseRuntimeTarget targetInput targets include) = None \<longleftrightarrow>
          (\<exists>t. parseSelectors include (if include then ''--target'' else ''--target-exclude'')
                 (strings_Split targetInput CHR '','') zeroRuntimeTarget = Inr t)"
    by (simp add: parseRuntimeTarget_def Let_def split: sum.splits)
  then show ?thesis
    by (simp only: parseSelectors_accepts_iff)
qed


theorem parseRuntimeTarget_accepts_iff_witness:
  "parseRuntimeTarget ''all'' [] True = ([zeroRuntimeTarget\<lparr>Target := ''all''\<rparr>], None)
   \<and> parseRuntimeTarget ''all'' [] False = ([], Some AllWithTargetExclude)
   \<and> parseRuntimeTarget ''account=CA.*,region=eu'' [] False
       = ([zeroRuntimeTarget\<lparr>GlobalAccount := ''CA.*'', Region := ''eu''\<rparr>], None)
   \<and> snd (parseRuntimeTarget ''account=CA.*,all'' [] False) \<noteq> None
   \<and> parseRuntimeTarget ''subaccount='' [] True
       = ([], Some (MissingRequiredValue ''--target'' ''subaccount''))
   \<and> parseRuntimeTarget ''runtime-id'' [] False
       = ([], Some (MissingRequiredValue ''--target-exclude'' ''runtime-id''))
   \<and> parseRuntimeTarget ''plan=azure'' [] True = ([], Some (InvalidSelector ''--target'' ''plan''))
   \<and> parseRuntimeTarget ''plan=azure'' [] False
       = ([], Some (InvalidSelector ''--target-exclude'' ''plan''))"
  using parseRuntimeTarget_accepts_iff [of "''all''" "[]" True] parseRuntimeTarget_accepts_iff [of "''all''" "[]" False]
    parseRuntimeTarget_accepts_iff [of "''account=CA.*,region=eu''" "[]" False]
    parseRuntimeTarget_accepts_iff [of "''account=CA.*,all''" "[]" False]
    parseRuntimeTarget_accepts_iff [of "''subaccount=''" "[]" True]
    parseRuntimeTarget_accepts_iff [of "''runtime-id''" "[]" False]
    parseRuntimeTarget_accepts_iff [of "''plan=azure''" "[]" True]
    parseRuntimeTarget_accepts_iff [of "''plan=azure''" "[]" False]
  by (simp add: parseRuntimeTarget_def Let_def checkRuntimeTargetSelector_def TargetAll_def
      targetAccount_def targetSubaccount_def targetRegion_def targetRuntimeID_def
      zeroRuntimeTarget_def)

lemma targetKeys_distinct_all:
  "TargetAll \<noteq> targetAccount" "TargetAll \<noteq> targetSubaccount"
  "TargetAll \<noteq> targetRegion" "TargetAll \<noteq> targetRuntimeID"
  "targetAccount \<noteq> targetSubaccount" "targetAccount \<noteq> targetRegion"
  "targetAccount \<noteq> targetRuntimeID" "targetSubaccount \<noteq> targetRegion"
  "targetSubaccount \<noteq> targetRuntimeID" "targetRegion \<noteq> targetRuntimeID"
  by (simp_all add: TargetAll_def targetAccount_def targetSubaccount_def targetRegion_def
      targetRuntimeID_def)

lemma parseSelectors_fields:
  "parseSelectors include flagName selectors target = Inr t \<Longrightarrow>
     Target t = (if TargetAll \<in> set (map selectorKeyOf selectors) then TargetAll
                 else Target target)
     \<and> GlobalAccount t =
         (if filter (\<lambda>s. selectorKeyOf s = targetAccount) selectors = [] then GlobalAccount target
          else selectorValueOf (last (filter (\<lambda>s. selectorKeyOf s = targetAccount) selectors)))
     \<and> SubAccount t =
         (if filter (\<lambda>s. selectorKeyOf s = targetSubaccount) selectors = [] then SubAccount target
          else selectorValueOf (last (filter (\<lambda>s. selectorKeyOf s = targetSubaccount) selectors)))
     \<and> Region t =
         (if filter (\<lambda>s. selectorKeyOf s = targetRegion) selectors = [] then Region target
          else selectorValueOf (last (filter (\<lambda>s. selectorKeyOf s = targetRegion) selectors)))
     \<and> RuntimeID t =
         (if filter (\<lambda>s. selectorKeyOf s = targetRuntimeID) selectors = [] then RuntimeID target
          else selectorValueOf (last (filter (\<lambda>s. selectorKeyOf s = targetRuntimeID) selectors)))"
proof (induction selectors arbitrary: target)
  case Nil
  then show ?case by simp
next
  case (Cons selector rest)
  obtain k svRest where sv: "strings_Split selector CHR ''='' = k # svRest"
    using strings_Split_nonempty [of selector "CHR ''=''"]
    by (cases "strings_Split selector CHR ''=''") auto
  have key: "selectorKeyOf selector = k"
    by (simp add: selectorKeyOf_def sv)
  have val: "selectorValueOf selector = svRest ! 0"
    by (simp add: selectorValueOf_def sv)
  note d = targetKeys_distinct_all
  consider (all) "k = TargetAll" | (acc) "k = targetAccount" | (sub) "k = targetSubaccount"
    | (reg) "k = targetRegion" | (rid) "k = targetRuntimeID"
    | (other) "k \<notin> {TargetAll, targetAccount, targetSubaccount, targetRegion, targetRuntimeID}"
    by auto
  then show ?case
  proof cases
    case all
    with Cons.prems have "parseSelectors include flagName rest (target\<lparr>Target := TargetAll\<rparr>) = Inr t"
      by (simp add: sv split: if_splits)
    from Cons.IH [OF this] show ?thesis
      using all d by (simp add: key)
  next
    case acc
    with Cons.prems d obtain v vs where vv: "svRest = v # vs"
      and p: "parseSelectors include flagName rest (target\<lparr>GlobalAccount := v\<rparr>) = Inr t"
      by (cases svRest) (auto simp add: sv checkRuntimeTargetSelector_def split: if_splits)
    from Cons.IH [OF p] show ?thesis
      using acc d by (simp add: key val vv)
  next
    case sub
    with Cons.prems d obtain v vs where vv: "svRest = v # vs"
      and p: "parseSelectors include flagName rest (target\<lparr>SubAccount := v\<rparr>) = Inr t"
      by (cases svRest) (auto simp add: sv checkRuntimeTargetSelector_def split: if_splits)
    from Cons.IH [OF p] show ?thesis
      using sub d by (simp add: key val vv)
  next
    case reg
    with Cons.prems d obtain v vs where vv: "svRest = v # vs"
      and p: "parseSelectors include flagName rest (target\<lparr>Region := v\<rparr>) = Inr t"
      by (cases svRest) (auto simp add: sv checkRuntimeTargetSelector_def split: if_splits)
    from Cons.IH [OF p] show ?thesis
      using reg d by (simp add: key val vv)
  next
    case rid
    with Cons.prems d obtain v vs where vv: "svRest = v # vs"
      and p: "parseSelectors include flagName rest (target\<lparr>RuntimeID := v\<rparr>) = Inr t"
      by (cases svRest) (auto simp add: sv checkRuntimeTargetSelector_def split: if_splits)
    from Cons.IH [OF p] show ?thesis
      using rid d by (simp add: key val vv)
  next
    case other
    with Cons.prems have False
      by (simp add: sv)
    then show ?thesis ..
  qed
qed


lemma parseRuntimeTarget_described:
  assumes "\<forall>selector \<in> set (strings_Split targetInput CHR '',''). wellFormedSelector include selector"
  shows "parseRuntimeTarget targetInput targets include =
           (targets @ [describedTarget targetInput], None)"
proof -
  let ?flag = "if include then ''--target'' else ''--target-exclude''"
  let ?sels = "strings_Split targetInput CHR '',''"
  have "\<exists>t. parseSelectors include ?flag ?sels zeroRuntimeTarget = Inr t"
    using assms
    by (simp only: parseSelectors_accepts_iff wellFormedSelector_def selectorKeyOf_def
        selectorValueOf_def)
  then obtain t where t: "parseSelectors include ?flag ?sels zeroRuntimeTarget = Inr t"
    by blast
  have "t = describedTarget targetInput"
    using parseSelectors_fields [OF t]
    by (simp add: describedTarget_def lastValueFor_def Let_def zeroRuntimeTarget_def)
  then show ?thesis
    using t by (simp add: parseRuntimeTarget_def Let_def)
qed

lemma parseTargets_described:
  "\<forall>t \<in> set inputs. \<forall>selector \<in> set (strings_Split t CHR '','').
      wellFormedSelector include selector \<Longrightarrow>
     parseTargets include inputs targets = (targets @ map describedTarget inputs, None)"
proof (induction inputs arbitrary: targets)
  case Nil
  then show ?case by simp
next
  case (Cons t rest)
  have "parseRuntimeTarget t targets include = (targets @ [describedTarget t], None)"
    using Cons.prems by (simp add: parseRuntimeTarget_described)
  then show ?case using Cons by simp
qed

lemma wellFormed_iff_parses:
  "(\<forall>selector \<in> set (strings_Split targetInput CHR '',''). wellFormedSelector include selector)
     \<longleftrightarrow> snd (parseRuntimeTarget targetInput targets include) = None"
proof -
  have "snd (parseRuntimeTarget targetInput targets include) = None \<longleftrightarrow>
          (\<exists>t. parseSelectors include (if include then ''--target'' else ''--target-exclude'')
                 (strings_Split targetInput CHR '','') zeroRuntimeTarget = Inr t)"
    by (simp add: parseRuntimeTarget_def Let_def split: sum.splits)
  then show ?thesis
    by (simp only: parseSelectors_accepts_iff wellFormedSelector_def selectorKeyOf_def
        selectorValueOf_def)
qed

text \<open>
  Claim C6. With an empty include list \<open>ValidateTransformRuntimeTargetOpts\<close> returns the
  error that a target must be given, whatever the exclude list, and leaves the
  \<open>TargetSpec\<close> alone. With a non-empty include list, when every selector of every
  include specifier is well formed for an include and every selector of every exclude
  specifier is well formed for an exclude (which is when each specifier parses, by
  \<open>wellFormed_iff_parses\<close>), it returns no error and the \<open>TargetSpec\<close> has, appended to
  its \<open>Include\<close> list, one target for each include input in order, namely the target the
  input describes, with the values of its selectors; and likewise for \<open>Exclude\<close>.
\<close>

theorem ValidateTransformRuntimeTargetOpts_include_required:
  "ValidateTransformRuntimeTargetOpts [] targetExcludeInputs targetSpec
     = (targetSpec, Some NoTargetSpecified)
   \<and> (targetInputs \<noteq> []
        \<and> (\<forall>t \<in> set targetInputs. \<forall>selector \<in> set (strings_Split t CHR '','').
              wellFormedSelector True selector)
        \<and> (\<forall>t \<in> set targetExcludeInputs. \<forall>selector \<in> set (strings_Split t CHR '','').
              wellFormedSelector False selector)
      \<longrightarrow> ValidateTransformRuntimeTargetOpts targetInputs targetExcludeInputs targetSpec
          = (targetSpec
               \<lparr>Include := Include targetSpec @ map describedTarget targetInputs,
                Exclude := Exclude targetSpec @ map describedTarget targetExcludeInputs\<rparr>,
             None))"
  by (simp add: ValidateTransformRuntimeTargetOpts_def parseTargets_described)

theorem ValidateTransformRuntimeTargetOpts_include_required_witness:
  "ValidateTransformRuntimeTargetOpts [] [''region=eu''] \<lparr>Include = [], Exclude = []\<rparr>
     = (\<lparr>Include = [], Exclude = []\<rparr>, Some NoTargetSpecified)
   \<and> [''all'', ''account=CA.*,subaccount=abc''] \<noteq> []
   \<and> wellFormedSelector True ''all''
   \<and> wellFormedSelector True ''account=CA.*''
   \<and> wellFormedSelector True ''subaccount=abc''
   \<and> wellFormedSelector False ''region=eu''
   \<and> wellFormedSelector False ''runtime-id=r1''
   \<and> ValidateTransformRuntimeTargetOpts [''all'', ''account=CA.*,subaccount=abc'']
        [''region=eu,runtime-id=r1''] \<lparr>Include = [], Exclude = []\<rparr>
     = (\<lparr>Include =
            [\<lparr>Target = ''all'', GlobalAccount = [], SubAccount = [], Region = [],
               RuntimeID = []\<rparr>,
             \<lparr>Target = [], GlobalAccount = ''CA.*'', SubAccount = ''abc'', Region = [],
               RuntimeID = []\<rparr>],
         Exclude =
            [\<lparr>Target = [], GlobalAccount = [], SubAccount = [], Region = ''eu'',
               RuntimeID = ''r1''\<rparr>]\<rparr>, None)"
  using ValidateTransformRuntimeTargetOpts_include_required [of "[''region=eu'']" "\<lparr>Include = [], Exclude = []\<rparr>"
              "[''all'', ''account=CA.*,subaccount=abc'']"]
    ValidateTransformRuntimeTargetOpts_include_required [of "[''region=eu,runtime-id=r1'']" "\<lparr>Include = [], Exclude = []\<rparr>"
              "[''all'', ''account=CA.*,subaccount=abc'']"]
  by (simp add: wellFormedSelector_def selectorKeyOf_def selectorValueOf_def
      describedTarget_def lastValueFor_def Let_def TargetAll_def
      targetAccount_def targetSubaccount_def targetRegion_def targetRuntimeID_def)

end
